theory Spec2Isabelle
  imports Complex_Main
begin

section \<open>Numbers\<close>

text \<open>
  The monitor computes with Python and numpy floats. Market data and configuration values
  (prices, volumes, tax rates, ROI expectations, thresholds) are finite numbers and are
  modelled as \<open>real\<close>: arithmetic on them is exact, and \<open>-0.0\<close> is not told apart
  from \<open>0.0\<close>. Rounding to the 64-bit format is added for the sustainability check, in
  the section on floating point below, where a property depends on it.
  A computed value that can leave the finite numbers (a numpy division by zero, the
  literal \<open>float('inf')\<close>, a standard deviation of a single point) is a \<open>pyfloat\<close>.
\<close>

datatype pyfloat = Fin real | PInf | NInf | NaN

text \<open>Sign of a finite, non-zero product or quotient, as an infinity.\<close>

definition signed_inf :: "bool \<Rightarrow> pyfloat" where
  "signed_inf positive = (if positive then PInf else NInf)"

text \<open>Addition, as \<open>sum\<close> and \<open>+=\<close> perform it: \<open>inf + (-inf)\<close> is \<open>nan\<close>.\<close>

fun pf_add :: "pyfloat \<Rightarrow> pyfloat \<Rightarrow> pyfloat" where
  "pf_add NaN _ = NaN"
| "pf_add _ NaN = NaN"
| "pf_add (Fin a) (Fin b) = Fin (a + b)"
| "pf_add PInf NInf = NaN"
| "pf_add NInf PInf = NaN"
| "pf_add PInf _ = PInf"
| "pf_add _ PInf = PInf"
| "pf_add NInf _ = NInf"
| "pf_add _ NInf = NInf"

text \<open>Multiplication: \<open>0 * inf\<close> is \<open>nan\<close>.\<close>

fun pf_mul :: "pyfloat \<Rightarrow> pyfloat \<Rightarrow> pyfloat" where
  "pf_mul NaN _ = NaN"
| "pf_mul _ NaN = NaN"
| "pf_mul (Fin a) (Fin b) = Fin (a * b)"
| "pf_mul (Fin a) PInf = (if a = 0 then NaN else signed_inf (0 < a))"
| "pf_mul (Fin a) NInf = (if a = 0 then NaN else signed_inf (a < 0))"
| "pf_mul PInf (Fin b) = (if b = 0 then NaN else signed_inf (0 < b))"
| "pf_mul NInf (Fin b) = (if b = 0 then NaN else signed_inf (b < 0))"
| "pf_mul PInf PInf = PInf"
| "pf_mul NInf NInf = PInf"
| "pf_mul PInf NInf = NInf"
| "pf_mul NInf PInf = NInf"

text \<open>
  Division of numpy scalars: a division by zero does not raise, it gives \<open>inf\<close>,
  \<open>-inf\<close> or (for \<open>0 / 0\<close>) \<open>nan\<close>.
\<close>

fun pf_div :: "pyfloat \<Rightarrow> pyfloat \<Rightarrow> pyfloat" where
  "pf_div NaN _ = NaN"
| "pf_div _ NaN = NaN"
| "pf_div (Fin a) (Fin b) =
     (if b = 0 then (if a = 0 then NaN else signed_inf (0 < a)) else Fin (a / b))"
| "pf_div (Fin a) PInf = Fin 0"
| "pf_div (Fin a) NInf = Fin 0"
| "pf_div PInf (Fin b) = signed_inf (0 \<le> b)"
| "pf_div NInf (Fin b) = signed_inf (b < 0)"
| "pf_div PInf PInf = NaN"
| "pf_div PInf NInf = NaN"
| "pf_div NInf PInf = NaN"
| "pf_div NInf NInf = NaN"

text \<open>The comparison \<open><\<close>: false as soon as one side is \<open>nan\<close>.\<close>

fun pf_less :: "pyfloat \<Rightarrow> pyfloat \<Rightarrow> bool" where
  "pf_less NaN _ = False"
| "pf_less _ NaN = False"
| "pf_less (Fin a) (Fin b) = (a < b)"
| "pf_less _ NInf = False"
| "pf_less NInf _ = True"
| "pf_less PInf _ = False"
| "pf_less _ PInf = True"

definition pf_greater :: "pyfloat \<Rightarrow> pyfloat \<Rightarrow> bool" where
  "pf_greater a b = pf_less b a"

definition is_finite :: "pyfloat \<Rightarrow> bool" where
  "is_finite x = (case x of Fin _ \<Rightarrow> True | _ \<Rightarrow> False)"

section \<open>The sustainability model\<close>

text \<open>
  The dictionary \<open>check_sustainability\<close> returns, without its \<open>timestamp\<close> (the clock
  is no input of the model). The key \<open>"token"\<close> is the field \<open>s_token\<close>.
\<close>

record sustainability_report =
  s_token :: string
  daily_volume :: real
  tax_rate :: real
  daily_tax_revenue :: real
  total_supply_value :: real
  daily_roi :: real
  required_payouts :: real
  is_sustainable :: bool
  sustainability_ratio :: pyfloat

text \<open>
  \<open>CryptoMonitor.check_sustainability(token_id, daily_volume, tax_rate,
  total_supply_value, daily_roi)\<close>. The division is reached only with a positive
  divisor; the printed alert is no part of the result.
\<close>

definition check_sustainability ::
  "string \<Rightarrow> real \<Rightarrow> real \<Rightarrow> real \<Rightarrow> real \<Rightarrow> sustainability_report" where
  "check_sustainability token_id volume rate supply roi =
     (let revenue = volume * rate;
          payouts = supply * roi
      in \<lparr> s_token = token_id,
           daily_volume = volume,
           tax_rate = rate,
           daily_tax_revenue = revenue,
           total_supply_value = supply,
           daily_roi = roi,
           required_payouts = payouts,
           is_sustainable = (revenue \<ge> payouts),
           sustainability_ratio = (if payouts > 0 then Fin (revenue / payouts) else PInf) \<rparr>)"

section \<open>Strings\<close>

text \<open>
  \<open>str(n)\<close> for an integer, as the f-strings of the cache key and of the request
  address format \<open>days\<close>. \<open>digit_char\<close> is only applied to a number below 10.
\<close>

definition digit_char :: "nat \<Rightarrow> char" where
  "digit_char d = ''0123456789'' ! d"

function str_nat :: "nat \<Rightarrow> string" where
  "str_nat n = (if n < 10 then [digit_char n] else str_nat (n div 10) @ [digit_char (n mod 10)])"
  by pat_completeness auto
termination
  by (relation "measure id") auto

declare str_nat.simps [simp del]

definition str_int :: "int \<Rightarrow> string" where
  "str_int i = (if i < 0 then CHR ''-'' # str_nat (nat (- i)) else str_nat (nat i))"

text \<open>
  \<open>str.lower()\<close> on the letters \<open>A\<close> to \<open>Z\<close>; wallet addresses are hexadecimal
  ASCII text, and every other character is left as it is.
\<close>

definition lower_char :: "char \<Rightarrow> char" where
  "lower_char c =
     (case map_of (zip ''ABCDEFGHIJKLMNOPQRSTUVWXYZ'' ''abcdefghijklmnopqrstuvwxyz'') c of
        Some l \<Rightarrow> l
      | None \<Rightarrow> c)"

definition lower :: "string \<Rightarrow> string" where
  "lower s = map lower_char s"

section \<open>Market data and the series cache\<close>

text \<open>
  A row of the data frame \<open>get_token_data\<close> builds. Its \<open>date\<close> column is
  \<open>timestamp\<close> converted, so it is determined by \<open>timestamp\<close> and not stored.
\<close>

record row =
  timestamp :: int
  price :: real
  volume :: real

text \<open>
  The body of a market chart answer: the lists under \<open>"prices"\<close> and
  \<open>"total_volumes"\<close>, each entry a pair of a timestamp and a number.
\<close>

record market_chart =
  prices :: "(int \<times> real) list"
  total_volumes :: "(int \<times> real) list"

text \<open>
  What one \<open>requests.get\<close> and the reading of its answer come to: \<open>Raised\<close> when
  the request, the decoding of the body or the construction of the frames raises (the
  \<open>except\<close> branch), otherwise the status code with the decoded body.
\<close>

datatype response = Raised | Http nat market_chart

text \<open>
  The market data source: the answer to the \<open>n\<close>-th request of a run (counted from
  0) for an address. An answer may differ from one request to the next.
\<close>

type_synonym market = "nat \<Rightarrow> string \<Rightarrow> response"

text \<open>
  \<open>prices.merge(volumes, on=["timestamp", "date"])\<close>: the inner join on the
  timestamp, in the order of the rows of \<open>prices\<close>.
\<close>

definition merge_frames :: "(int \<times> real) list \<Rightarrow> (int \<times> real) list \<Rightarrow> row list" where
  "merge_frames ps vs =
     concat (map (\<lambda>(t, p).
       map (\<lambda>(t', v). \<lparr> timestamp = t, price = p, volume = v \<rparr>)
         (filter (\<lambda>(t', v). t' = t) vs)) ps)"

text \<open>
  The state of a \<open>FinvestaMonitor\<close> object that the analysed methods read or write.
  \<open>requests_sent\<close> is the log of the addresses requested from the market data source,
  oldest first: it makes the effect of \<open>requests.get\<close> visible in the model.
\<close>

record monitor =
  tokens :: "string list"
  wallets :: "string \<rightharpoonup> string"
  data_cache :: "string \<rightharpoonup> row list"
  tax_rates :: "string \<rightharpoonup> real"
  roi_expectations :: "string \<rightharpoonup> real"
  requests_sent :: "string list"

definition coingecko_base_url :: string where
  "coingecko_base_url = ''https://api.coingecko.com/api/v3''"

definition cache_key :: "string \<Rightarrow> int \<Rightarrow> string \<Rightarrow> string" where
  "cache_key token_id days vs_currency =
     token_id @ ''_'' @ str_int days @ ''_'' @ vs_currency"

definition chart_url :: "string \<Rightarrow> int \<Rightarrow> string \<Rightarrow> string" where
  "chart_url token_id days vs_currency =
     coingecko_base_url @ ''/coins/'' @ token_id @ ''/market_chart?vs_currency=''
       @ vs_currency @ ''&days='' @ str_int days"

text \<open>
  \<open>CryptoMonitor.get_token_data(token_id, days, vs_currency)\<close>: the frame or
  \<open>None\<close>, and the monitor afterwards.
\<close>

definition get_token_data ::
  "market \<Rightarrow> monitor \<Rightarrow> string \<Rightarrow> int \<Rightarrow> string \<Rightarrow> row list option \<times> monitor" where
  "get_token_data mkt m token_id days vs_currency =
     (case data_cache m (cache_key token_id days vs_currency) of
        Some cached \<Rightarrow> (Some cached, m)
      | None \<Rightarrow>
          (let url = chart_url token_id days vs_currency;
               m' = m\<lparr> requests_sent := requests_sent m @ [url] \<rparr>
           in case mkt (length (requests_sent m)) url of
                Raised \<Rightarrow> (None, m')
              | Http status body \<Rightarrow>
                  if status = 200 then
                    (let result = merge_frames (prices body) (total_volumes body)
                     in (Some result,
                         m'\<lparr> data_cache :=
                               (data_cache m')(cache_key token_id days vs_currency \<mapsto> result) \<rparr>))
                  else (None, m')))"

section \<open>The token health evaluator\<close>

text \<open>
  \<open>Series.mean()\<close> of a column without missing values. pandas gives \<open>nan\<close> for an
  empty column; every caller below has checked \<open>len(data) == 0\<close> before, so \<open>mean\<close>
  is only ever applied to a column with a row.
\<close>

definition mean :: "real list \<Rightarrow> real" where
  "mean xs = sum_list xs / real (length xs)"

text \<open>
  \<open>Series.std()\<close>. pandas' default is \<open>ddof=1\<close>: the sum of the squared deviations
  is divided by \<open>n - 1\<close>, and a column of fewer than two values has the deviation
  \<open>nan\<close>.
\<close>

definition std :: "real list \<Rightarrow> pyfloat" where
  "std xs =
     (if length xs < 2 then NaN
      else Fin (sqrt (sum_list (map (\<lambda>x. (x - mean xs)\<^sup>2) xs) / real (length xs - 1))))"

text \<open>The dictionary \<open>analyze_token_health\<close> returns, without its \<open>timestamp\<close>.\<close>

record health_report =
  token :: string
  current_price :: real
  price_change_30d :: pyfloat
  price_volatility :: pyfloat
  current_volume :: real
  volume_change_30d :: pyfloat
  volume_health :: string

text \<open>
  The volume health check of \<open>analyze_token_health\<close>, from the current volume and the
  average volume as the evaluator has computed them. The two thresholds are the average
  times 0.5 and times 2; scaling by a power of two is exact in binary floating point.
\<close>

definition volume_health_of :: "real \<Rightarrow> real \<Rightarrow> string" where
  "volume_health_of cur_volume avg_volume =
     (if cur_volume < avg_volume * 0.5 then ''Warning: Volume drop''
      else if cur_volume > avg_volume * 2 then ''High volume activity''
      else ''Normal'')"

text \<open>
  The metrics \<open>analyze_token_health\<close> computes from a frame with at least one row.
  \<open>iloc[0]\<close> and \<open>iloc[-1]\<close> are the first and the last row; the values are numpy
  scalars, so the two divisions by a first value follow \<open>pf_div\<close>.
\<close>

definition health_metrics :: "string \<Rightarrow> row list \<Rightarrow> health_report" where
  "health_metrics token_id data =
     (let ps = map price data;
          vs = map volume data;
          cur_price = last ps;
          avg_price = mean ps;
          price_change = pf_mul (pf_div (Fin (cur_price - hd ps)) (Fin (hd ps))) (Fin 100);
          cur_volume = last vs;
          avg_volume = mean vs;
          volume_change = pf_mul (pf_div (Fin (cur_volume - hd vs)) (Fin (hd vs))) (Fin 100);
          health = volume_health_of cur_volume avg_volume;
          volatility = pf_mul (pf_div (std ps) (Fin avg_price)) (Fin 100)
      in \<lparr> token = token_id,
           current_price = cur_price,
           price_change_30d = price_change,
           price_volatility = volatility,
           current_volume = cur_volume,
           volume_change_30d = volume_change,
           volume_health = health \<rparr>)"

text \<open>
  \<open>CryptoMonitor.analyze_token_health(token_id)\<close>: the report or \<open>None\<close>, and the
  monitor afterwards. The data is fetched with the defaults \<open>days=30\<close> and
  \<open>vs_currency="usd"\<close>.
\<close>

definition analyze_token_health ::
  "market \<Rightarrow> monitor \<Rightarrow> string \<Rightarrow> health_report option \<times> monitor" where
  "analyze_token_health mkt m token_id =
     (case get_token_data mkt m token_id 30 ''usd'' of
        (None, m') \<Rightarrow> (None, m')
      | (Some data, m') \<Rightarrow>
          if length data = 0 then (None, m')
          else (Some (health_metrics token_id data), m'))"

section \<open>Sustainability from market data, and the ecosystem\<close>

text \<open>
  \<open>FinvestaMonitor.set_token_tax_rate\<close> and \<open>set_token_roi_expectation\<close>; no value
  is rejected.
\<close>

definition set_token_tax_rate :: "monitor \<Rightarrow> string \<Rightarrow> real \<Rightarrow> monitor" where
  "set_token_tax_rate m token_id rate = m\<lparr> tax_rates := (tax_rates m)(token_id \<mapsto> rate) \<rparr>"

definition set_token_roi_expectation :: "monitor \<Rightarrow> string \<Rightarrow> real \<Rightarrow> monitor" where
  "set_token_roi_expectation m token_id roi =
     m\<lparr> roi_expectations := (roi_expectations m)(token_id \<mapsto> roi) \<rparr>"

text \<open>
  \<open>self.tax_rates.get(token_id, 0.05)\<close> and \<open>self.roi_expectations.get(token_id,
  0.01)\<close>: the configured value, or the default.
\<close>

definition tax_rate_of :: "monitor \<Rightarrow> string \<Rightarrow> real" where
  "tax_rate_of m token_id = (case tax_rates m token_id of Some r \<Rightarrow> r | None \<Rightarrow> 0.05)"

definition daily_roi_of :: "monitor \<Rightarrow> string \<Rightarrow> real" where
  "daily_roi_of m token_id = (case roi_expectations m token_id of Some r \<Rightarrow> r | None \<Rightarrow> 0.01)"

text \<open>\<open>FinvestaMonitor.check_token_sustainability(token_id, estimate_supply)\<close>.\<close>

definition check_token_sustainability ::
  "market \<Rightarrow> monitor \<Rightarrow> string \<Rightarrow> bool \<Rightarrow> sustainability_report option \<times> monitor" where
  "check_token_sustainability mkt m token_id estimate_supply =
     (case get_token_data mkt m token_id 30 ''usd'' of
        (None, m') \<Rightarrow> (None, m')
      | (Some token_data, m') \<Rightarrow>
          if length token_data = 0 then (None, m')
          else
            (let avg_daily_volume = mean (map volume token_data);
                 rate = tax_rate_of m' token_id;
                 roi = daily_roi_of m' token_id;
                 supply = (if estimate_supply then avg_daily_volume * 10 else 10000000)
             in (Some (check_sustainability token_id avg_daily_volume rate supply roi), m')))"

text \<open>The accumulators of the loop of \<open>analyze_multi_token_ecosystem\<close>.\<close>

record accumulators =
  token_reports :: "string \<rightharpoonup> health_report"
  volume_sum :: real
  price_changes :: "pyfloat list"
  sustainability_scores :: "pyfloat list"

definition no_results :: accumulators where
  "no_results = \<lparr> token_reports = Map.empty, volume_sum = 0, price_changes = [],
                  sustainability_scores = [] \<rparr>"

text \<open>The loop over the token ids, threading the monitor and the accumulators.\<close>

fun analyze_tokens ::
  "market \<Rightarrow> string list \<Rightarrow> monitor \<Rightarrow> accumulators \<Rightarrow> monitor \<times> accumulators" where
  "analyze_tokens mkt [] m acc = (m, acc)"
| "analyze_tokens mkt (token_id # rest) m acc =
     (let (token_health, m1) = analyze_token_health mkt m token_id;
          acc1 = (case token_health of
                    None \<Rightarrow> acc
                  | Some h \<Rightarrow>
                      acc\<lparr> token_reports := (token_reports acc)(token_id \<mapsto> h),
                           volume_sum := volume_sum acc + current_volume h,
                           price_changes := price_changes acc @ [price_change_30d h] \<rparr>);
          (sustainability, m2) = check_token_sustainability mkt m1 token_id True;
          acc2 = (case sustainability of
                    None \<Rightarrow> acc1
                  | Some s \<Rightarrow>
                      if pf_greater (sustainability_ratio s) (Fin 0)
                      then acc1\<lparr> sustainability_scores :=
                                   sustainability_scores acc1 @ [sustainability_ratio s] \<rparr>
                      else acc1)
      in analyze_tokens mkt rest m2 acc2)"

text \<open>\<open>sum(xs)\<close>, from the left and starting at 0.\<close>

definition py_sum :: "pyfloat list \<Rightarrow> pyfloat" where
  "py_sum xs = foldl pf_add (Fin 0) xs"

text \<open>\<open>sum(xs) / len(xs) if xs else 0\<close>.\<close>

definition average_or_zero :: "pyfloat list \<Rightarrow> pyfloat" where
  "average_or_zero xs = (if xs = [] then Fin 0 else pf_div (py_sum xs) (Fin (real (length xs))))"

text \<open>
  The dictionary \<open>analyze_multi_token_ecosystem\<close> returns, with the entries of
  \<open>"ecosystem_metrics"\<close> as fields and without the \<open>timestamp\<close>. The key
  \<open>"tokens"\<close> is the field \<open>eco_tokens\<close>.
\<close>

record ecosystem_health =
  eco_tokens :: "string \<rightharpoonup> health_report"
  total_volume :: real
  avg_price_change :: pyfloat
  sustainability_score :: pyfloat
  health_status :: string

text \<open>
  \<open>FinvestaMonitor.analyze_multi_token_ecosystem(token_ids)\<close>; \<open>None\<close> for
  \<open>token_ids\<close> selects the monitor's own token list.
\<close>

definition analyze_multi_token_ecosystem ::
  "market \<Rightarrow> monitor \<Rightarrow> string list option \<Rightarrow> ecosystem_health \<times> monitor" where
  "analyze_multi_token_ecosystem mkt m token_ids =
     (let ids = (case token_ids of None \<Rightarrow> tokens m | Some l \<Rightarrow> l);
          (m', acc) = analyze_tokens mkt ids m no_results;
          score = average_or_zero (sustainability_scores acc);
          status =
            (if pf_less score (Fin 1) then ''Critical: Unsustainable''
             else if pf_less score (Fin 1.5) then ''Warning: Marginally Sustainable''
             else ''Healthy: Sustainable'')
      in (\<lparr> eco_tokens = token_reports acc,
             total_volume = volume_sum acc,
             avg_price_change = average_or_zero (price_changes acc),
             sustainability_score = score,
             health_status = status \<rparr>, m'))"

section \<open>The sustainability check in floating point\<close>

text \<open>
  The finite numbers of the two sustainability functions are 64-bit floats, and every
  product and quotient is rounded to this format. \<open>binary64\<close> is the rounding of a
  real number to the nearest number with a significand of 53 bits, a tie going to the even
  significand; the exponent is not bounded here, so overflow and the subnormal numbers are
  left out. \<open>round_even\<close> is this rounding to an integer, and \<open>binary64_exponent\<close> is the
  exponent of the last bit of the significand.
\<close>

definition round_even :: "real \<Rightarrow> int" where
  "round_even x =
     (let f = \<lfloor>x\<rfloor>; d = x - of_int f
      in if d < 1 / 2 then f else if 1 / 2 < d then f + 1 else if even f then f else f + 1)"

definition binary64_exponent :: "real \<Rightarrow> int" where
  "binary64_exponent x = \<lfloor>log 2 \<bar>x\<bar>\<rfloor> - 52"

definition binary64 :: "real \<Rightarrow> real" where
  "binary64 x =
     (if x = 0 then 0
      else of_int (round_even (x / 2 powi binary64_exponent x)) * 2 powi binary64_exponent x)"

text \<open>
  A rounding is any function that replaces an exact result by the stored one: \<open>binary64\<close>
  for the floats of the program, the identity for exact arithmetic. It is accurate to
  \<open>u\<close> at \<open>z\<close> if the stored result is within the relative error \<open>u\<close> of \<open>z\<close>.
\<close>

type_synonym rounding = "real \<Rightarrow> real"

definition accurate :: "real \<Rightarrow> rounding \<Rightarrow> real \<Rightarrow> bool" where
  "accurate u rnd z = (\<bar>rnd z - z\<bar> \<le> u * \<bar>z\<bar>)"

text \<open>
  \<open>CryptoMonitor.check_sustainability\<close> once more, now with the three computed numbers
  rounded: the product \<open>daily_volume * tax_rate\<close>, the product
  \<open>total_supply_value * daily_roi\<close>, and the quotient of the two stored results. The
  comparisons are those of the stored results.
\<close>

definition check_sustainability_fl ::
  "rounding \<Rightarrow> string \<Rightarrow> real \<Rightarrow> real \<Rightarrow> real \<Rightarrow> real \<Rightarrow> sustainability_report" where
  "check_sustainability_fl rnd token_id vol rate supply roi =
     (let revenue = rnd (vol * rate);
          payouts = rnd (supply * roi)
      in \<lparr> s_token = token_id,
           daily_volume = vol,
           tax_rate = rate,
           daily_tax_revenue = revenue,
           total_supply_value = supply,
           daily_roi = roi,
           required_payouts = payouts,
           is_sustainable = (revenue \<ge> payouts),
           sustainability_ratio = (if payouts > 0 then Fin (rnd (revenue / payouts)) else PInf) \<rparr>)"

text \<open>
  \<open>FinvestaMonitor.check_token_sustainability\<close> once more, with the product
  \<open>avg_daily_volume * 10\<close> rounded as well. \<open>average\<close> stands for
  \<open>Series.mean()\<close> as pandas computes it on the volume column, whatever its order of
  summation is: the mean is computed once and the volume and the supply both derive from
  this one stored value.
\<close>

definition check_token_sustainability_fl ::
  "rounding \<Rightarrow> (real list \<Rightarrow> real) \<Rightarrow> market \<Rightarrow> monitor \<Rightarrow> string \<Rightarrow> bool \<Rightarrow>
     sustainability_report option \<times> monitor" where
  "check_token_sustainability_fl rnd average mkt m token_id estimate_supply =
     (case get_token_data mkt m token_id 30 ''usd'' of
        (None, m') \<Rightarrow> (None, m')
      | (Some token_data, m') \<Rightarrow>
          if length token_data = 0 then (None, m')
          else
            (let avg_daily_volume = average (map volume token_data);
                 rate = tax_rate_of m' token_id;
                 roi = daily_roi_of m' token_id;
                 supply = (if estimate_supply then rnd (avg_daily_volume * 10) else 10000000)
             in (Some (check_sustainability_fl rnd token_id avg_daily_volume rate supply roi), m')))"

text \<open>
  A mean in floating point: the sum from the left, then the division by the number of
  values, every result rounded.
\<close>

definition mean_fl :: "rounding \<Rightarrow> real list \<Rightarrow> real" where
  "mean_fl rnd xs = rnd (foldl (\<lambda>s x. rnd (s + x)) 0 xs / real (length xs))"

section \<open>The wallet activity analyzer\<close>

text \<open>
  A row of the frame \<open>get_pulsechain_wallet\<close> returns: the columns \<open>hash\<close>,
  \<open>value_eth\<close>, \<open>from\<close>, \<open>to\<close> and \<open>timeStamp\<close> (seconds). The columns
  \<open>value\<close> and \<open>datetime\<close> hold the same amount and time in another unit and
  format.
\<close>

record transaction =
  hash :: string
  value_eth :: real
  from_address :: string
  to_address :: string
  timeStamp :: int

text \<open>
  The ledger data source: what \<open>get_pulsechain_wallet\<close> returns for an address,
  \<open>None\<close> on any failure.
\<close>

type_synonym ledger = "string \<Rightarrow> transaction list option"

text \<open>
  The summary \<open>check_wallet_activity\<close> returns. \<open>latest_transaction\<close> holds the
  hash, amount, sender, receiver and time of one row.
\<close>

record wallet_summary =
  wallet :: string
  total_transactions :: nat
  incoming_transactions :: nat
  outgoing_transactions :: nat
  large_transactions :: nat
  latest_transaction :: transaction

text \<open>Truth of an optional string: \<open>None\<close> and the empty string are false.\<close>

definition truthy :: "string option \<Rightarrow> bool" where
  "truthy s = (case s of None \<Rightarrow> False | Some t \<Rightarrow> t \<noteq> [])"

definition incoming_txs :: "string \<Rightarrow> transaction list \<Rightarrow> transaction list" where
  "incoming_txs address txs = filter (\<lambda>t. lower (to_address t) = lower address) txs"

definition outgoing_txs :: "string \<Rightarrow> transaction list \<Rightarrow> transaction list" where
  "outgoing_txs address txs = filter (\<lambda>t. lower (from_address t) = lower address) txs"

definition large_txs :: "real \<Rightarrow> transaction list \<Rightarrow> transaction list" where
  "large_txs threshold txs = filter (\<lambda>t. \<bar>value_eth t\<bar> > threshold) txs"

text \<open>
  The address \<open>check_wallet_activity\<close> works on: the one registered under
  \<open>wallet_name\<close> if there is one, otherwise the \<open>wallet_address\<close> argument.
\<close>

definition resolve_wallet :: "monitor \<Rightarrow> string option \<Rightarrow> string option \<Rightarrow> string option" where
  "resolve_wallet m wallet_name wallet_address =
     (case wallet_name of
        None \<Rightarrow> wallet_address
      | Some n \<Rightarrow> if n \<noteq> [] \<and> n \<in> dom (wallets m) then wallets m n else wallet_address)"

text \<open>
  \<open>CryptoMonitor.check_wallet_activity(wallet_name, wallet_address, threshold)\<close>: the
  summary, or \<open>None\<close> when there is no address or no transaction.
\<close>

definition check_wallet_activity ::
  "ledger \<Rightarrow> monitor \<Rightarrow> string option \<Rightarrow> string option \<Rightarrow> real \<Rightarrow> wallet_summary option" where
  "check_wallet_activity ldg m wallet_name wallet_address threshold =
     (case resolve_wallet m wallet_name wallet_address of
        None \<Rightarrow> None
      | Some address \<Rightarrow>
          if address = [] then None
          else (case ldg address of
                  None \<Rightarrow> None
                | Some transactions \<Rightarrow>
                    if length transactions = 0 then None
                    else Some \<lparr> wallet = (if truthy wallet_name then the wallet_name else address),
                                total_transactions = length transactions,
                                incoming_transactions = length (incoming_txs address transactions),
                                outgoing_transactions = length (outgoing_txs address transactions),
                                large_transactions = length (large_txs threshold transactions),
                                latest_transaction = hd transactions \<rparr>))"

section \<open>Reference notions and sample runs\<close>

text \<open>
  The two standard deviations of a list of numbers: the sample deviation divides the sum
  of the squared deviations by \<open>n - 1\<close>, the population deviation by \<open>n\<close>.
\<close>

definition sample_std :: "real list \<Rightarrow> real" where
  "sample_std xs = sqrt (sum_list (map (\<lambda>x. (x - mean xs)\<^sup>2) xs) / real (length xs - 1))"

definition population_std :: "real list \<Rightarrow> real" where
  "population_std xs = sqrt (sum_list (map (\<lambda>x. (x - mean xs)\<^sup>2) xs) / real (length xs))"

text \<open>The monitor \<open>FinvestaMonitor.__init__\<close> builds.\<close>

definition finvesta_monitor :: monitor where
  "finvesta_monitor =
     \<lparr> tokens = [''hex'', ''pls'', ''finvesta''],
       wallets = Map.empty,
       data_cache = Map.empty,
       tax_rates = [''finvesta'' \<mapsto> 0.05],
       roi_expectations = [''finvesta'' \<mapsto> 0.01],
       requests_sent = [] \<rparr>"

text \<open>A market data source that answers every request with status 200 and one body.\<close>

definition steady_market :: "market_chart \<Rightarrow> market" where
  "steady_market body = (\<lambda>n url. Http 200 body)"

text \<open>A chart of two points with the prices 1 and 3, and the frame built from it.\<close>

definition two_prices :: market_chart where
  "two_prices = \<lparr> prices = [(0, 1), (1, 3)], total_volumes = [(0, 5), (1, 5)] \<rparr>"

definition two_rows :: "row list" where
  "two_rows = [\<lparr> timestamp = 0, price = 1, volume = 5 \<rparr>, \<lparr> timestamp = 1, price = 3, volume = 5 \<rparr>]"

text \<open>A market data source whose every request fails.\<close>

definition failing_market :: market where
  "failing_market = (\<lambda>n url. Raised)"

text \<open>Further charts, each with the frame built from it: a single point; a first price of
  0; a last volume at half and at twice the mean volume.\<close>

definition one_point :: market_chart where
  "one_point = \<lparr> prices = [(0, 2)], total_volumes = [(0, 5)] \<rparr>"

definition one_row :: "row list" where
  "one_row = [\<lparr> timestamp = 0, price = 2, volume = 5 \<rparr>]"

definition zero_start :: market_chart where
  "zero_start = \<lparr> prices = [(0, 0), (1, 1)], total_volumes = [(0, 5), (1, 5)] \<rparr>"

definition zero_start_rows :: "row list" where
  "zero_start_rows = [\<lparr> timestamp = 0, price = 0, volume = 5 \<rparr>, \<lparr> timestamp = 1, price = 1, volume = 5 \<rparr>]"

definition half_volume :: market_chart where
  "half_volume = \<lparr> prices = [(0, 1), (1, 1)], total_volumes = [(0, 3), (1, 1)] \<rparr>"

definition half_volume_rows :: "row list" where
  "half_volume_rows = [\<lparr> timestamp = 0, price = 1, volume = 3 \<rparr>, \<lparr> timestamp = 1, price = 1, volume = 1 \<rparr>]"

definition double_volume :: market_chart where
  "double_volume = \<lparr> prices = [(0, 1), (1, 1)], total_volumes = [(0, 0), (1, 2)] \<rparr>"

definition double_volume_rows :: "row list" where
  "double_volume_rows = [\<lparr> timestamp = 0, price = 1, volume = 0 \<rparr>, \<lparr> timestamp = 1, price = 1, volume = 2 \<rparr>]"

text \<open>A failed fetch: the request raised, or the status is not 200.\<close>

definition fetch_failed :: "response \<Rightarrow> bool" where
  "fetch_failed answer = (case answer of Raised \<Rightarrow> True | Http status body \<Rightarrow> status \<noteq> 200)"

text \<open>A chart without a point, as a valid answer with status 200.\<close>

definition empty_chart :: market_chart where
  "empty_chart = \<lparr> prices = [], total_volumes = [] \<rparr>"

text \<open>
  The transaction with the maximum timestamp, the first such in input order; \<open>None\<close>
  for an empty list only.
\<close>

definition newest_transaction :: "transaction list \<Rightarrow> transaction option" where
  "newest_transaction txs = List.find (\<lambda>t. timeStamp t = Max (timeStamp ` set txs)) txs"

text \<open>
  A transfer from the wallet to itself, and a transfer the wallet takes part in; addresses
  are compared without regard to case, as the analyzer does.
\<close>

definition self_transfer :: "string \<Rightarrow> transaction \<Rightarrow> bool" where
  "self_transfer address t =
     (lower (from_address t) = lower address \<and> lower (to_address t) = lower address)"

definition involves :: "string \<Rightarrow> transaction \<Rightarrow> bool" where
  "involves address t =
     (lower (from_address t) = lower address \<or> lower (to_address t) = lower address)"

text \<open>A ledger data source that answers every address with one list of transactions.\<close>

definition fixed_ledger :: "transaction list \<Rightarrow> ledger" where
  "fixed_ledger txs = (\<lambda>address. Some txs)"

text \<open>
  Three transactions of the wallet \<open>0xabc\<close>: an outgoing one at time 100, an incoming
  one at time 200, and one from the wallet to itself at time 300.
\<close>

definition old_transfer :: transaction where
  "old_transfer = \<lparr> hash = ''0x01'', value_eth = 0.1, from_address = ''0xAbC'',
                    to_address = ''0xdef'', timeStamp = 100 \<rparr>"

definition new_transfer :: transaction where
  "new_transfer = \<lparr> hash = ''0x02'', value_eth = 0.02, from_address = ''0xdef'',
                    to_address = ''0xabc'', timeStamp = 200 \<rparr>"

definition own_transfer :: transaction where
  "own_transfer = \<lparr> hash = ''0x03'', value_eth = 1, from_address = ''0xABC'',
                    to_address = ''0xabc'', timeStamp = 300 \<rparr>"

text \<open>
  The sustainability reports the loop of \<open>analyze_multi_token_ecosystem\<close> obtains, in
  the order of the token ids and from the same sequence of monitors; a token without data
  contributes none.
\<close>

fun sustainability_trace :: "market \<Rightarrow> string list \<Rightarrow> monitor \<Rightarrow> sustainability_report list" where
  "sustainability_trace mkt [] m = []"
| "sustainability_trace mkt (token_id # rest) m =
     (let (token_health, m1) = analyze_token_health mkt m token_id;
          (sustainability, m2) = check_token_sustainability mkt m1 token_id True
      in (case sustainability of None \<Rightarrow> [] | Some s \<Rightarrow> [s]) @ sustainability_trace mkt rest m2)"

text \<open>The ratios of a list of reports that are greater than 0.\<close>

definition positive_ratios :: "sustainability_report list \<Rightarrow> pyfloat list" where
  "positive_ratios reports =
     filter (\<lambda>x. pf_greater x (Fin 0)) (map sustainability_ratio reports)"

text \<open>A chart of two points without any trading volume, and the frame built from it.\<close>

definition no_volume :: market_chart where
  "no_volume = \<lparr> prices = [(0, 1), (1, 1)], total_volumes = [(0, 0), (1, 0)] \<rparr>"

definition no_volume_rows :: "row list" where
  "no_volume_rows = [\<lparr> timestamp = 0, price = 1, volume = 0 \<rparr>, \<lparr> timestamp = 1, price = 1, volume = 0 \<rparr>]"

text \<open>
  The monitor after \<open>set_token_tax_rate("finvesta", 0.05)\<close> and
  \<open>set_token_roi_expectation("finvesta", 0.01)\<close>, the literals being the 64-bit floats
  nearest to 5/100 and 1/100; and the monitor after the same two calls with the values 0.05
  and 0.005 configured for the token \<open>flexboost\<close>.
\<close>

definition double_rates_monitor :: monitor where
  "double_rates_monitor =
     set_token_roi_expectation
       (set_token_tax_rate finvesta_monitor ''finvesta'' (binary64 (5 / 100)))
       ''finvesta'' (binary64 (1 / 100))"

definition flexboost_monitor :: monitor where
  "flexboost_monitor =
     set_token_roi_expectation
       (set_token_tax_rate finvesta_monitor ''flexboost'' (binary64 (5 / 100)))
       ''flexboost'' (binary64 (5 / 1000))"

text \<open>A chart of two points with the price 1 and the same volume twice, and the frame built from it.\<close>

definition flat_chart :: "real \<Rightarrow> market_chart" where
  "flat_chart v = \<lparr> prices = [(0, 1), (1, 1)], total_volumes = [(0, v), (1, v)] \<rparr>"

definition flat_rows :: "real \<Rightarrow> row list" where
  "flat_rows v = [\<lparr> timestamp = 0, price = 1, volume = v \<rparr>, \<lparr> timestamp = 1, price = 1, volume = v \<rparr>]"

section \<open>Properties of the rounding\<close>

lemma two_powr_int: "(2::real) powr real_of_int k = 2 powi k"
  by (simp add: powr_int power_int_def power_one_over)

lemma binary64_exponent_eqI:
  assumes "2 powi (e + 52) \<le> \<bar>x\<bar>" and "\<bar>x\<bar> < 2 powi (e + 53)"
  shows "binary64_exponent x = e"
proof -
  have "(0::real) < 2 powi (e + 52)" by simp
  with assms(1) have pos: "0 < \<bar>x\<bar>" by linarith
  have "2 powr real_of_int (e + 52) \<le> \<bar>x\<bar> \<and> \<bar>x\<bar> < 2 powr real_of_int (e + 52 + 1)"
    using assms by (simp only: two_powr_int) (simp add: add.commute add.left_commute)
  then have "\<lfloor>log 2 \<bar>x\<bar>\<rfloor> = e + 52"
    using pos floor_log_eq_powr_iff [of "\<bar>x\<bar>" 2 "e + 52"] by simp
  then show ?thesis by (simp add: binary64_exponent_def)
qed

text \<open>
  The value of \<open>binary64\<close> at a number whose significand, scaled to an integer of 53
  bits, is known.
\<close>

lemma binary64_eqI:
  assumes "2 ^ 52 \<le> \<bar>x\<bar> * 2 ^ n" and "\<bar>x\<bar> * 2 ^ n < 2 ^ 53"
    and "round_even (x * 2 ^ n) = m"
  shows "binary64 x = of_int m / 2 ^ n"
proof -
  have p: "(2::real) powi (- int n) = 1 / 2 ^ n"
    by (simp add: power_int_def power_one_over)
  have k: "(2::real) powi 52 = 2 ^ 52" "(2::real) powi 53 = 2 ^ 53"
    by (simp_all add: power_int_def)
  have "(2::real) powi (- int n + 52) = 2 powi (- int n) * 2 powi 52"
    by (rule power_int_add) simp
  then have q: "(2::real) powi (- int n + 52) = 2 ^ 52 / 2 ^ n"
    by (simp only: p k) simp
  have "(2::real) powi (- int n + 53) = 2 powi (- int n) * 2 powi 53"
    by (rule power_int_add) simp
  then have q': "(2::real) powi (- int n + 53) = 2 ^ 53 / 2 ^ n"
    by (simp only: p k) simp
  have a: "2 powi (- int n + 52) \<le> \<bar>x\<bar>"
    unfolding q using assms(1) by (simp add: field_simps)
  have b: "\<bar>x\<bar> < 2 powi (- int n + 53)"
    unfolding q' using assms(2) by (simp add: field_simps)
  have e: "binary64_exponent x = - int n" using a b by (rule binary64_exponent_eqI)
  have "x \<noteq> 0" using assms(1) by auto
  then show ?thesis
    using assms(3) by (simp add: binary64_def e p)
qed

lemma round_even_close: "\<bar>of_int (round_even y) - y\<bar> \<le> 1 / 2"
proof -
  have "of_int \<lfloor>y\<rfloor> \<le> y" "y < of_int \<lfloor>y\<rfloor> + 1" by linarith+
  then show ?thesis
    by (auto simp add: round_even_def Let_def abs_le_iff)
qed

text \<open>Rounding to the 64-bit format is accurate to \<open>2\<^sup>-\<^sup>5\<^sup>3\<close> at every number.\<close>

lemma binary64_accurate: "accurate (1 / 2 ^ 53) binary64 z"
proof (cases "z = 0")
  case True
  then show ?thesis by (simp add: accurate_def binary64_def)
next
  case False
  define e where "e = binary64_exponent z"
  define p :: real where "p = 2 powi e"
  have p: "0 < p" by (simp add: p_def)
  have z: "0 < \<bar>z\<bar>" using False by simp
  have "2 powr real_of_int \<lfloor>log 2 \<bar>z\<bar>\<rfloor> \<le> 2 powr log 2 \<bar>z\<bar>"
    by (rule powr_mono) simp_all
  also have "\<dots> = \<bar>z\<bar>" using z by simp
  finally have "2 powi \<lfloor>log 2 \<bar>z\<bar>\<rfloor> \<le> \<bar>z\<bar>" by (simp only: two_powr_int)
  moreover have "\<lfloor>log 2 \<bar>z\<bar>\<rfloor> = e + 52" by (simp add: e_def binary64_exponent_def)
  ultimately have "2 powi (e + 52) \<le> \<bar>z\<bar>" by simp
  moreover have "(2::real) powi (e + 52) = 2 powi e * 2 powi 52"
    by (rule power_int_add) simp
  ultimately have lo: "p * 2 ^ 52 \<le> \<bar>z\<bar>" by (simp add: p_def power_int_def)
  have b: "binary64 z = of_int (round_even (z / p)) * p"
    using False by (simp add: binary64_def p_def e_def)
  have "binary64 z - z = (of_int (round_even (z / p)) - z / p) * p"
    using p by (simp add: b field_simps)
  then have "\<bar>binary64 z - z\<bar> = \<bar>of_int (round_even (z / p)) - z / p\<bar> * p"
    using p by (simp add: abs_mult)
  also have "\<dots> \<le> 1 / 2 * p"
    using round_even_close [of "z / p"] p by (simp only: mult_le_cancel_right_pos)
  also have "\<dots> = p * 2 ^ 52 / 2 ^ 53" by simp
  also have "\<dots> \<le> \<bar>z\<bar> / 2 ^ 53" using lo by (simp only: divide_le_cancel) simp
  finally show ?thesis by (simp add: accurate_def)
qed

lemma accurate_bounds:
  assumes "accurate u rnd z" and "0 \<le> z"
  shows "z * (1 - u) \<le> rnd z" and "rnd z \<le> z * (1 + u)"
  using assms by (simp_all add: accurate_def abs_le_iff algebra_simps)

lemma accurate_nonpos:
  assumes "accurate u rnd z" and "z \<le> 0" and "u \<le> 1"
  shows "rnd z \<le> 0"
proof -
  from assms(1,2) have "rnd z \<le> z - u * z"
    by (simp add: accurate_def abs_le_iff algebra_simps)
  also have "\<dots> = z * (1 - u)" by (simp add: algebra_simps)
  also have "\<dots> \<le> 0" using assms(2,3) by (simp add: mult_nonpos_nonneg)
  finally show ?thesis .
qed

text \<open>The 64-bit floats that the literals 0.05, 0.01, 0.005, 0.7 and 2.8 denote.\<close>

lemma double_0_05: "binary64 (5 / 100) = 3602879701896397 / 2 ^ 56"
  using binary64_eqI [where n = 57 and x = "5 / 100" and m = 7205759403792794]
  by (simp add: round_even_def Let_def)

lemma double_0_01: "binary64 (1 / 100) = 5764607523034235 / 2 ^ 59"
  using binary64_eqI [where n = 59 and x = "1 / 100" and m = 5764607523034235]
  by (simp add: round_even_def Let_def)

lemma double_0_005: "binary64 (5 / 1000) = 5764607523034235 / 2 ^ 60"
  using binary64_eqI [where n = 60 and x = "5 / 1000" and m = 5764607523034235]
  by (simp add: round_even_def Let_def)

lemma double_0_7: "binary64 (7 / 10) = 3152519739159347 / 2 ^ 52"
  using binary64_eqI [where n = 53 and x = "7 / 10" and m = 6305039478318694]
  by (simp add: round_even_def Let_def)






lemma mean_fl_exact: "mean_fl (\<lambda>z. z) xs = mean xs"
proof -
  have "foldl (\<lambda>s x. s + x) a xs = a + sum_list xs" for a :: real
    by (induction xs arbitrary: a) simp_all
  then show ?thesis by (simp add: mean_fl_def mean_def)
qed



section \<open>Properties of the sustainability model\<close>

text \<open>
  Claim C2, as the code has it. For every input, the report of \<open>check_sustainability\<close>
  repeats its five inputs, has \<open>daily_tax_revenue = daily_volume * tax_rate\<close> and
  \<open>required_payouts = total_supply_value * daily_roi\<close>, and is sustainable exactly when
  the revenue is at least the payouts. With positive payouts the ratio is revenue divided
  by payouts; with payouts of 0 the ratio is plus infinity, and the token is sustainable
  exactly when the revenue is not negative (so always for a volume and a tax rate that
  are not negative). Revenue equal to payouts counts as sustainable, with a ratio of
  exactly 1 when the payouts are positive.
\<close>

theorem check_sustainability_report:
  "let r = check_sustainability tid v rt sp ri in
     s_token r = tid \<and> daily_volume r = v \<and> tax_rate r = rt \<and>
     total_supply_value r = sp \<and> daily_roi r = ri \<and>
     daily_tax_revenue r = v * rt \<and>
     required_payouts r = sp * ri \<and>
     is_sustainable r = (daily_tax_revenue r \<ge> required_payouts r) \<and>
     (required_payouts r > 0 \<longrightarrow>
        sustainability_ratio r = Fin (daily_tax_revenue r / required_payouts r)) \<and>
     (required_payouts r = 0 \<longrightarrow>
        sustainability_ratio r = PInf \<and> is_sustainable r = (daily_tax_revenue r \<ge> 0)) \<and>
     (required_payouts r = 0 \<and> 0 \<le> v \<and> 0 \<le> rt \<longrightarrow> is_sustainable r) \<and>
     (daily_tax_revenue r = required_payouts r \<longrightarrow> is_sustainable r) \<and>
     (daily_tax_revenue r = required_payouts r \<and> required_payouts r > 0 \<longrightarrow>
        sustainability_ratio r = Fin 1)"
  by (simp add: check_sustainability_def Let_def)

text \<open>
  The three examples of the specification: revenue equal to payouts, revenue at half the
  payouts, and a supply value of 0.
\<close>

theorem check_sustainability_report_witness:
  "sustainability_ratio (check_sustainability ''finvesta'' 2000000 0.05 10000000 0.01) = Fin 1 \<and>
   is_sustainable (check_sustainability ''finvesta'' 2000000 0.05 10000000 0.01) \<and>
   sustainability_ratio (check_sustainability ''finvesta'' 1000000 0.05 10000000 0.01) = Fin 0.5 \<and>
   \<not> is_sustainable (check_sustainability ''finvesta'' 1000000 0.05 10000000 0.01) \<and>
   sustainability_ratio (check_sustainability ''finvesta'' 2000000 0.05 0 0.01) = PInf \<and>
   is_sustainable (check_sustainability ''finvesta'' 2000000 0.05 0 0.01)"
  using check_sustainability_report [of "''finvesta''" 2000000 "0.05" 10000000 "0.01"]
        check_sustainability_report [of "''finvesta''" 1000000 "0.05" 10000000 "0.01"]
        check_sustainability_report [of "''finvesta''" 2000000 "0.05" 0 "0.01"]
  by (simp add: Let_def)

text \<open>
  Payouts of 0 do not make a token sustainable by themselves: with a negative volume the
  revenue is negative, the ratio is plus infinity and \<open>is_sustainable\<close> is false.
\<close>

theorem zero_payouts_counterexample:
  "required_payouts (check_sustainability ''finvesta'' (- 1000000) 0.05 0 0.01) = 0 \<and>
   sustainability_ratio (check_sustainability ''finvesta'' (- 1000000) 0.05 0 0.01) = PInf \<and>
   \<not> is_sustainable (check_sustainability ''finvesta'' (- 1000000) 0.05 0 0.01)"
  by (simp add: check_sustainability_def Let_def)

section \<open>Properties of the token health evaluator\<close>

lemma analyze_token_health_Some:
  "fst (get_token_data mkt m tid 30 ''usd'') = Some data \<Longrightarrow> data \<noteq> [] \<Longrightarrow>
   fst (analyze_token_health mkt m tid) = Some (health_metrics tid data)"
  by (cases "get_token_data mkt m tid 30 ''usd''") (simp add: analyze_token_health_def)

lemma analyze_token_health_None:
  "fst (analyze_token_health mkt m tid) = None \<longleftrightarrow>
   fst (get_token_data mkt m tid 30 ''usd'') = None \<or>
   fst (get_token_data mkt m tid 30 ''usd'') = Some []"
  by (cases "get_token_data mkt m tid 30 ''usd''")
     (auto simp add: analyze_token_health_def split: option.splits)

lemma steady_market_data:
  "fst (get_token_data (steady_market body) finvesta_monitor tid 30 ''usd'') =
     Some (merge_frames (prices body) (total_volumes body))"
  by (simp add: get_token_data_def finvesta_monitor_def steady_market_def Let_def)

lemma two_prices_rows: "merge_frames (prices two_prices) (total_volumes two_prices) = two_rows"
  by (simp add: two_prices_def merge_frames_def two_rows_def)

lemma sum_sq_nonneg: "0 \<le> sum_list (map (\<lambda>x. (x - c)\<^sup>2) (xs :: real list))"
  by (induction xs) auto

lemma sample_population_std:
  assumes "2 \<le> length xs"
  shows "sample_std xs = population_std xs * sqrt (real (length xs) / real (length xs - 1))"
proof -
  let ?s = "sum_list (map (\<lambda>x. (x - mean xs)\<^sup>2) xs)"
  have n: "real (length xs) \<noteq> 0" "real (length xs - 1) \<noteq> 0" using assms by auto
  have "?s / real (length xs - 1) = (?s / real (length xs)) * (real (length xs) / real (length xs - 1))"
    using n by (simp add: field_simps)
  then have "sqrt (?s / real (length xs - 1)) =
      sqrt (?s / real (length xs)) * sqrt (real (length xs) / real (length xs - 1))"
    by (simp only: real_sqrt_mult)
  then show ?thesis
    unfolding sample_std_def population_std_def .
qed

lemma sample_std_nonneg: "0 \<le> sample_std xs"
  unfolding sample_std_def
  by (intro real_sqrt_ge_zero divide_nonneg_nonneg sum_sq_nonneg) simp

text \<open>
  Claim C3, as the code has it. For every series of at least 2 points with a positive
  mean price, the reported \<open>price_volatility\<close> is the sample standard deviation of the
  prices (the divisor is \<open>n - 1\<close>) divided by the mean price, times 100; that is the
  population standard deviation times the square root of \<open>n / (n - 1)\<close>, divided by
  the mean price, times 100. The value is finite and not negative.
\<close>

theorem price_volatility_sample_std:
  assumes "fst (get_token_data mkt m tid 30 ''usd'') = Some data"
    and "2 \<le> length data"
    and "0 < mean (map price data)"
  shows "\<exists>r. fst (analyze_token_health mkt m tid) = Some r \<and>
           price_volatility r =
             Fin (sample_std (map price data) / mean (map price data) * 100) \<and>
           sample_std (map price data) =
             population_std (map price data) *
               sqrt (real (length data) / real (length data - 1)) \<and>
           0 \<le> sample_std (map price data) / mean (map price data) * 100"
proof -
  from assms(2) have ne: "data \<noteq> []" by auto
  have r: "fst (analyze_token_health mkt m tid) = Some (health_metrics tid data)"
    using assms(1) ne by (rule analyze_token_health_Some)
  have v: "price_volatility (health_metrics tid data) =
             Fin (sample_std (map price data) / mean (map price data) * 100)"
    using assms(2,3) by (simp add: health_metrics_def Let_def std_def sample_std_def)
  have s: "sample_std (map price data) =
             population_std (map price data) * sqrt (real (length data) / real (length data - 1))"
    using sample_population_std [of "map price data"] assms(2) by simp
  have "0 \<le> sample_std (map price data)"
    by (rule sample_std_nonneg)
  then have p: "0 \<le> sample_std (map price data) / mean (map price data) * 100"
    using assms(3) by simp
  show ?thesis using r v s p by blast
qed

text \<open>The prices 1 and 3: the mean is 2 and the reported volatility is \<open>sqrt 2 / 2 * 100\<close>.\<close>

theorem price_volatility_sample_std_witness:
  "fst (get_token_data (steady_market two_prices) finvesta_monitor ''hex'' 30 ''usd'') = Some two_rows \<and>
   2 \<le> length two_rows \<and> 0 < mean (map price two_rows) \<and>
   (\<exists>r. fst (analyze_token_health (steady_market two_prices) finvesta_monitor ''hex'') = Some r \<and>
        price_volatility r = Fin (sqrt 2 / 2 * 100))"
proof -
  have h1: "fst (get_token_data (steady_market two_prices) finvesta_monitor ''hex'' 30 ''usd'') = Some two_rows"
    by (simp add: steady_market_data two_prices_rows)
  have h2: "2 \<le> length two_rows" by (simp add: two_rows_def)
  have h3: "0 < mean (map price two_rows)" by (simp add: two_rows_def mean_def)
  have s: "sample_std (map price two_rows) = sqrt 2" by (simp add: two_rows_def sample_std_def mean_def)
  have m: "mean (map price two_rows) = 2" by (simp add: two_rows_def mean_def)
  from price_volatility_sample_std [OF h1 h2 h3] h1 h2 h3 show ?thesis
    by (auto simp add: s m)
qed

text \<open>
  For the same two prices the population standard deviation is 1, so the claimed value is
  50; the reported one is \<open>sqrt 2 / 2 * 100\<close>.
\<close>

theorem population_std_counterexample:
  "\<exists>r. fst (analyze_token_health (steady_market two_prices) finvesta_monitor ''hex'') = Some r \<and>
       price_volatility r = Fin (sqrt 2 / 2 * 100) \<and>
       population_std (map price two_rows) / mean (map price two_rows) * 100 = 50 \<and>
       price_volatility r \<noteq> Fin (population_std (map price two_rows) / mean (map price two_rows) * 100)"
proof -
  have h1: "fst (get_token_data (steady_market two_prices) finvesta_monitor ''hex'' 30 ''usd'') = Some two_rows"
    by (simp add: steady_market_data two_prices_rows)
  have r: "fst (analyze_token_health (steady_market two_prices) finvesta_monitor ''hex'') =
             Some (health_metrics ''hex'' two_rows)"
    using h1 by (rule analyze_token_health_Some) (simp add: two_rows_def)
  have v: "price_volatility (health_metrics ''hex'' two_rows) = Fin (sqrt 2 / 2 * 100)"
    by (simp add: health_metrics_def Let_def std_def two_rows_def mean_def)
  have p: "population_std (map price two_rows) / mean (map price two_rows) * 100 = 50"
    by (simp add: population_std_def two_rows_def mean_def)
  show ?thesis using r v p by simp
qed

lemma failing_market_data:
  "fst (get_token_data failing_market finvesta_monitor tid 30 ''usd'') = None"
  by (simp add: get_token_data_def finvesta_monitor_def failing_market_def Let_def)

lemma one_point_rows: "merge_frames (prices one_point) (total_volumes one_point) = one_row"
  by (simp add: one_point_def merge_frames_def one_row_def)

lemma zero_start_merge: "merge_frames (prices zero_start) (total_volumes zero_start) = zero_start_rows"
  by (simp add: zero_start_def merge_frames_def zero_start_rows_def)

text \<open>
  Claim C5, as the code has it. The evaluator returns no report exactly when the data is
  unavailable or the series has no point. A series of exactly one point is evaluated: the
  report holds its price as \<open>current_price\<close>, and a \<open>price_volatility\<close> of \<open>nan\<close>.
\<close>

theorem report_unless_no_rows:
  "(fst (analyze_token_health mkt m tid) = None \<longleftrightarrow>
      fst (get_token_data mkt m tid 30 ''usd'') = None \<or>
      fst (get_token_data mkt m tid 30 ''usd'') = Some []) \<and>
   (\<forall>p. fst (get_token_data mkt m tid 30 ''usd'') = Some [p] \<longrightarrow>
      fst (analyze_token_health mkt m tid) = Some (health_metrics tid [p]) \<and>
      current_price (health_metrics tid [p]) = price p \<and>
      price_volatility (health_metrics tid [p]) = NaN)"
proof -
  have a: "fst (analyze_token_health mkt m tid) = None \<longleftrightarrow>
      fst (get_token_data mkt m tid 30 ''usd'') = None \<or>
      fst (get_token_data mkt m tid 30 ''usd'') = Some []"
    by (rule analyze_token_health_None)
  have b: "fst (analyze_token_health mkt m tid) = Some (health_metrics tid [p])"
    if "fst (get_token_data mkt m tid 30 ''usd'') = Some [p]" for p
    using that by (rule analyze_token_health_Some) simp
  have c: "current_price (health_metrics tid [p]) = price p \<and>
           price_volatility (health_metrics tid [p]) = NaN" for p
    by (simp add: health_metrics_def Let_def std_def)
  show ?thesis using a b c by blast
qed

text \<open>A failing data source gives no report, a chart of one point gives one.\<close>

theorem report_unless_no_rows_witness:
  "fst (get_token_data failing_market finvesta_monitor ''hex'' 30 ''usd'') = None \<and>
   fst (analyze_token_health failing_market finvesta_monitor ''hex'') = None \<and>
   fst (get_token_data (steady_market one_point) finvesta_monitor ''hex'' 30 ''usd'') = Some one_row \<and>
   (\<exists>r. fst (analyze_token_health (steady_market one_point) finvesta_monitor ''hex'') = Some r \<and>
        current_price r = 2 \<and> price_volatility r = NaN)"
proof -
  have h1: "fst (get_token_data failing_market finvesta_monitor ''hex'' 30 ''usd'') = None"
    by (rule failing_market_data)
  have h2: "fst (get_token_data (steady_market one_point) finvesta_monitor ''hex'' 30 ''usd'') =
              Some [\<lparr> timestamp = 0, price = 2, volume = 5 \<rparr>]"
    by (simp add: steady_market_data one_point_rows one_row_def)
  from report_unless_no_rows [of failing_market finvesta_monitor "''hex''"] h1
  have n: "fst (analyze_token_health failing_market finvesta_monitor ''hex'') = None" by simp
  from report_unless_no_rows [of "steady_market one_point" finvesta_monitor "''hex''"] h2
  have s: "fst (analyze_token_health (steady_market one_point) finvesta_monitor ''hex'') =
             Some (health_metrics ''hex'' [\<lparr> timestamp = 0, price = 2, volume = 5 \<rparr>]) \<and>
           current_price (health_metrics ''hex'' [\<lparr> timestamp = 0, price = 2, volume = 5 \<rparr>]) = 2 \<and>
           price_volatility (health_metrics ''hex'' [\<lparr> timestamp = 0, price = 2, volume = 5 \<rparr>]) = NaN"
    by simp
  show ?thesis using h1 h2 n s by (simp add: one_row_def)
qed

text \<open>The report for a series of exactly one point.\<close>

theorem single_point_counterexample:
  "fst (get_token_data (steady_market one_point) finvesta_monitor ''hex'' 30 ''usd'') = Some one_row \<and>
   length one_row = 1 \<and>
   fst (analyze_token_health (steady_market one_point) finvesta_monitor ''hex'') =
     Some \<lparr> token = ''hex'', current_price = 2, price_change_30d = Fin 0, price_volatility = NaN,
            current_volume = 5, volume_change_30d = Fin 0, volume_health = ''Normal'' \<rparr>"
proof -
  have h: "fst (get_token_data (steady_market one_point) finvesta_monitor ''hex'' 30 ''usd'') = Some one_row"
    by (simp add: steady_market_data one_point_rows)
  have r: "fst (analyze_token_health (steady_market one_point) finvesta_monitor ''hex'') =
             Some (health_metrics ''hex'' one_row)"
    using h by (rule analyze_token_health_Some) (simp add: one_row_def)
  have v: "health_metrics ''hex'' one_row =
      \<lparr> token = ''hex'', current_price = 2, price_change_30d = Fin 0, price_volatility = NaN,
            current_volume = 5, volume_change_30d = Fin 0, volume_health = ''Normal'' \<rparr>"
    by (simp add: health_metrics_def volume_health_of_def Let_def std_def one_row_def mean_def)
  show ?thesis using h r v by (simp add: one_row_def)
qed

text \<open>
  Claim C6, as the code has it. For every series with at least one point whose first price
  is 0, the evaluator raises no error and returns a report; its \<open>price_change_30d\<close> is
  plus infinity, minus infinity or \<open>nan\<close> as the last price is positive, negative
  or 0, and so never finite.
\<close>

theorem zero_first_price_report:
  assumes "fst (get_token_data mkt m tid 30 ''usd'') = Some data"
    and "data \<noteq> []"
    and "price (hd data) = 0"
  shows "\<exists>r. fst (analyze_token_health mkt m tid) = Some r \<and>
           price_change_30d r =
             (if 0 < price (last data) then PInf
              else if price (last data) < 0 then NInf else NaN) \<and>
           \<not> is_finite (price_change_30d r)"
proof -
  have r: "fst (analyze_token_health mkt m tid) = Some (health_metrics tid data)"
    using assms(1,2) by (rule analyze_token_health_Some)
  have c: "price_change_30d (health_metrics tid data) =
             (if 0 < price (last data) then PInf
              else if price (last data) < 0 then NInf else NaN)"
    using assms(2,3)
    by (simp add: health_metrics_def Let_def hd_map last_map signed_inf_def)
  have "\<not> is_finite (price_change_30d (health_metrics tid data))"
    by (simp add: c is_finite_def)
  with r c show ?thesis by blast
qed

text \<open>The prices 0 and 1: the reported price change is plus infinity.\<close>

theorem zero_first_price_report_witness:
  "fst (get_token_data (steady_market zero_start) finvesta_monitor ''hex'' 30 ''usd'') = Some zero_start_rows \<and>
   zero_start_rows \<noteq> [] \<and> price (hd zero_start_rows) = 0 \<and>
   (\<exists>r. fst (analyze_token_health (steady_market zero_start) finvesta_monitor ''hex'') = Some r \<and>
        price_change_30d r = PInf)"
proof -
  have h1: "fst (get_token_data (steady_market zero_start) finvesta_monitor ''hex'' 30 ''usd'') = Some zero_start_rows"
    by (simp add: steady_market_data zero_start_merge)
  have h2: "zero_start_rows \<noteq> []" by (simp add: zero_start_rows_def)
  have h3: "price (hd zero_start_rows) = 0" by (simp add: zero_start_rows_def)
  have l: "price (last zero_start_rows) = 1" by (simp add: zero_start_rows_def)
  from zero_first_price_report [OF h1 h2 h3] h1 h2 h3 show ?thesis
    by (auto simp add: l)
qed

text \<open>The whole report for the prices 0 and 1: a series of two points is not rejected.\<close>

theorem zero_first_price_counterexample:
  "fst (get_token_data (steady_market zero_start) finvesta_monitor ''hex'' 30 ''usd'') = Some zero_start_rows \<and>
   2 \<le> length zero_start_rows \<and> price (hd zero_start_rows) = 0 \<and>
   fst (analyze_token_health (steady_market zero_start) finvesta_monitor ''hex'') =
     Some \<lparr> token = ''hex'', current_price = 1, price_change_30d = PInf,
            price_volatility = Fin (sqrt (1 / 2) / (1 / 2) * 100),
            current_volume = 5, volume_change_30d = Fin 0, volume_health = ''Normal'' \<rparr>"
proof -
  have h: "fst (get_token_data (steady_market zero_start) finvesta_monitor ''hex'' 30 ''usd'') = Some zero_start_rows"
    by (simp add: steady_market_data zero_start_merge)
  have r: "fst (analyze_token_health (steady_market zero_start) finvesta_monitor ''hex'') =
             Some (health_metrics ''hex'' zero_start_rows)"
    using h by (rule analyze_token_health_Some) (simp add: zero_start_rows_def)
  have v: "health_metrics ''hex'' zero_start_rows =
      \<lparr> token = ''hex'', current_price = 1, price_change_30d = PInf,
            price_volatility = Fin (sqrt (1 / 2) / (1 / 2) * 100),
            current_volume = 5, volume_change_30d = Fin 0, volume_health = ''Normal'' \<rparr>"
    by (simp add: health_metrics_def volume_health_of_def Let_def std_def zero_start_rows_def mean_def
        signed_inf_def power2_eq_square)
  show ?thesis using h r v by (simp add: zero_start_rows_def)
qed

lemma half_volume_merge: "merge_frames (prices half_volume) (total_volumes half_volume) = half_volume_rows"
  by (simp add: half_volume_def merge_frames_def half_volume_rows_def)

lemma double_volume_merge: "merge_frames (prices double_volume) (total_volumes double_volume) = double_volume_rows"
  by (simp add: double_volume_def merge_frames_def double_volume_rows_def)



section \<open>Properties of the sustainability check on market data\<close>

lemma get_token_data_config:
  "tax_rates (snd (get_token_data mkt m tid d c)) = tax_rates m \<and>
   roi_expectations (snd (get_token_data mkt m tid d c)) = roi_expectations m \<and>
   tokens (snd (get_token_data mkt m tid d c)) = tokens m \<and>
   wallets (snd (get_token_data mkt m tid d c)) = wallets m"
  by (simp add: get_token_data_def Let_def split: option.splits response.splits)

lemma steady_market_uncached:
  "data_cache m (cache_key tid 30 ''usd'') = None \<Longrightarrow>
   fst (get_token_data (steady_market body) m tid 30 ''usd'') =
     Some (merge_frames (prices body) (total_volumes body))"
  by (simp add: get_token_data_def steady_market_def Let_def)

lemma check_token_sustainability_Some:
  assumes "fst (get_token_data mkt m tid 30 ''usd'') = Some data" and "data \<noteq> []"
  shows "fst (check_token_sustainability mkt m tid est) =
     Some (check_sustainability tid (mean (map volume data)) (tax_rate_of m tid)
            (if est then mean (map volume data) * 10 else 10000000) (daily_roi_of m tid))"
proof (cases "get_token_data mkt m tid 30 ''usd''")
  case (Pair a m')
  with assms have a: "a = Some data" by simp
  from Pair get_token_data_config [of mkt m tid 30 "''usd''"]
  have "tax_rates m' = tax_rates m" "roi_expectations m' = roi_expectations m" by simp_all
  then show ?thesis
    using assms(2) Pair a
    by (simp add: check_token_sustainability_def Let_def tax_rate_of_def daily_roi_of_def)
qed

text \<open>With the identity for the rounding, the two functions are those of exact arithmetic.\<close>

lemma check_sustainability_fl_exact:
  "check_sustainability_fl (\<lambda>z. z) tid v rt sp ri = check_sustainability tid v rt sp ri"
  by (simp add: check_sustainability_fl_def check_sustainability_def)

lemma check_token_sustainability_fl_exact:
  "check_token_sustainability_fl (\<lambda>z. z) mean mkt m tid est = check_token_sustainability mkt m tid est"
  by (simp add: check_token_sustainability_fl_def check_token_sustainability_def
      check_sustainability_fl_exact Let_def split: prod.split option.split)

lemma check_token_sustainability_fl_Some:
  assumes "fst (get_token_data mkt m tid 30 ''usd'') = Some data" and "data \<noteq> []"
  shows "fst (check_token_sustainability_fl rnd average mkt m tid True) =
     Some (check_sustainability_fl rnd tid (average (map volume data)) (tax_rate_of m tid)
            (rnd (average (map volume data) * 10)) (daily_roi_of m tid))"
proof (cases "get_token_data mkt m tid 30 ''usd''")
  case (Pair a m')
  with assms have a: "a = Some data" by simp
  from Pair get_token_data_config [of mkt m tid 30 "''usd''"]
  have "tax_rates m' = tax_rates m" "roi_expectations m' = roi_expectations m" by simp_all
  then show ?thesis
    using assms(2) Pair a
    by (simp add: check_token_sustainability_fl_def Let_def tax_rate_of_def daily_roi_of_def)
qed

lemma is_sustainable_fl:
  "is_sustainable (check_sustainability_fl rnd tid v rt sp ri) = (rnd (sp * ri) \<le> rnd (v * rt))"
  by (simp add: check_sustainability_fl_def Let_def)

lemma rounded_supply_pos:
  assumes "0 < a" and "u < 1" and "accurate u rnd (a * 10)"
  shows "0 < rnd (a * 10)"
proof -
  have "a * 10 * (1 - u) \<le> rnd (a * 10)"
    using accurate_bounds(1) [OF assms(3)] assms(1) by simp
  moreover have "0 < a * 10 * (1 - u)" using assms(1,2) by simp
  ultimately show ?thesis by linarith
qed

text \<open>
  The stored ratio against the exact quotient \<open>rate / (10 * roi)\<close>, for a mean volume
  \<open>a\<close>: each of the four roundings moves the result by at most the factor
  \<open>1 - u\<close> or \<open>1 + u\<close>.
\<close>

lemma rounded_ratio_bounds:
  fixes a rate roi u :: real
  assumes a: "0 < a" and rate: "0 \<le> rate" and roi: "0 < roi" and u: "0 \<le> u" "u < 1"
    and R: "accurate u rnd (a * rate)"
    and S: "accurate u rnd (a * 10)"
    and P: "accurate u rnd (rnd (a * 10) * roi)"
    and Q: "accurate u rnd (rnd (a * rate) / rnd (rnd (a * 10) * roi))"
  shows "0 < rnd (rnd (a * 10) * roi)"
    and "rate / (10 * roi) * ((1 - u) / (1 + u))\<^sup>2
           \<le> rnd (rnd (a * rate) / rnd (rnd (a * 10) * roi))"
    and "rnd (rnd (a * rate) / rnd (rnd (a * 10) * roi))
           \<le> rate / (10 * roi) * ((1 + u) / (1 - u))\<^sup>2"
    and "rate * (1 + u) < 10 * roi * (1 - u)\<^sup>2 \<Longrightarrow> rnd (a * rate) < rnd (rnd (a * 10) * roi)"
proof -
  let ?R = "rnd (a * rate)" and ?S = "rnd (a * 10)"
  let ?P = "rnd (rnd (a * 10) * roi)"
  have u1: "0 < 1 - u" "0 < 1 + u" using u by simp_all
  have R0: "0 \<le> a * rate" using a rate by simp
  have Rlo: "a * rate * (1 - u) \<le> ?R" and Rhi: "?R \<le> a * rate * (1 + u)"
    using accurate_bounds [OF R R0] by simp_all
  have Rnn: "0 \<le> ?R" using Rlo R0 u1 by (smt (verit) mult_nonneg_nonneg)
  have Slo: "a * 10 * (1 - u) \<le> ?S" and Shi: "?S \<le> a * 10 * (1 + u)"
    using accurate_bounds [OF S] a by simp_all
  have Spos: "0 < ?S"
  proof -
    have "0 < a * 10 * (1 - u)" using a u1 by simp
    with Slo show ?thesis by linarith
  qed
  have SR0: "0 \<le> ?S * roi" using Spos roi by simp
  have Plo': "?S * roi * (1 - u) \<le> ?P" and Phi': "?P \<le> ?S * roi * (1 + u)"
    using accurate_bounds [OF P SR0] by simp_all
  have "a * 10 * (1 - u) * roi * (1 - u) \<le> ?S * roi * (1 - u)"
    using Slo roi u1 by (simp add: mult_right_mono)
  with Plo' have Plo: "10 * a * roi * (1 - u)\<^sup>2 \<le> ?P"
    by (simp add: power2_eq_square algebra_simps)
  have "?S * roi * (1 + u) \<le> a * 10 * (1 + u) * roi * (1 + u)"
    using Shi roi u1 by (simp add: mult_right_mono)
  with Phi' have Phi: "?P \<le> 10 * a * roi * (1 + u)\<^sup>2"
    by (simp add: power2_eq_square algebra_simps)
  have Lpos: "0 < 10 * a * roi * (1 - u)\<^sup>2" using a roi u1 by simp
  with Plo show Ppos: "0 < ?P" by linarith
  have Q0: "0 \<le> ?R / ?P" using Rnn Ppos by simp
  have Qlo': "?R / ?P * (1 - u) \<le> rnd (?R / ?P)" and Qhi': "rnd (?R / ?P) \<le> ?R / ?P * (1 + u)"
    using accurate_bounds [OF Q Q0] by simp_all
  have hi0: "0 \<le> a * rate * (1 + u)" using a rate u1 by simp
  have up: "?R / ?P \<le> (a * rate * (1 + u)) / (10 * a * roi * (1 - u)\<^sup>2)"
    using hi0 Rhi Lpos Plo by (rule frac_le)
  have "(a * (rate * (1 + u))) / (a * (10 * roi * (1 - u)\<^sup>2)) =
        (rate * (1 + u)) / (10 * roi * (1 - u)\<^sup>2)"
    using a by (simp only: mult_divide_mult_cancel_left_if) simp
  then have "(a * rate * (1 + u)) / (10 * a * roi * (1 - u)\<^sup>2) =
        (rate * (1 + u)) / (10 * roi * (1 - u)\<^sup>2)"
    by (simp add: mult.assoc mult.left_commute)
  then have "(a * rate * (1 + u)) / (10 * a * roi * (1 - u)\<^sup>2) * (1 + u) =
        rate / (10 * roi) * ((1 + u) / (1 - u))\<^sup>2"
    by (simp add: power_divide power2_eq_square)
  moreover have "?R / ?P * (1 + u) \<le> (a * rate * (1 + u)) / (10 * a * roi * (1 - u)\<^sup>2) * (1 + u)"
    using up by (rule mult_right_mono) (use u1 in simp)
  ultimately show "rnd (?R / ?P) \<le> rate / (10 * roi) * ((1 + u) / (1 - u))\<^sup>2"
    using Qhi' by linarith
  have Hpos: "0 < ?P" by (rule Ppos)
  have down: "(a * rate * (1 - u)) / (10 * a * roi * (1 + u)\<^sup>2) \<le> ?R / ?P"
    using Rnn Rlo Hpos Phi by (rule frac_le)
  have "(a * (rate * (1 - u))) / (a * (10 * roi * (1 + u)\<^sup>2)) =
        (rate * (1 - u)) / (10 * roi * (1 + u)\<^sup>2)"
    using a by (simp only: mult_divide_mult_cancel_left_if) simp
  then have "(a * rate * (1 - u)) / (10 * a * roi * (1 + u)\<^sup>2) =
        (rate * (1 - u)) / (10 * roi * (1 + u)\<^sup>2)"
    by (simp add: mult.assoc mult.left_commute)
  then have "(a * rate * (1 - u)) / (10 * a * roi * (1 + u)\<^sup>2) * (1 - u) =
        rate / (10 * roi) * ((1 - u) / (1 + u))\<^sup>2"
    by (simp add: power_divide power2_eq_square)
  moreover have "(a * rate * (1 - u)) / (10 * a * roi * (1 + u)\<^sup>2) * (1 - u) \<le> ?R / ?P * (1 - u)"
    using down by (rule mult_right_mono) (use u1 in simp)
  ultimately show "rate / (10 * roi) * ((1 - u) / (1 + u))\<^sup>2 \<le> rnd (?R / ?P)"
    using Qlo' by linarith
  show "?R < ?P" if "rate * (1 + u) < 10 * roi * (1 - u)\<^sup>2"
  proof -
    have "a * (rate * (1 + u)) < a * (10 * roi * (1 - u)\<^sup>2)"
      using that a by (simp only: mult_less_cancel_left_pos)
    then have "a * rate * (1 + u) < 10 * a * roi * (1 - u)\<^sup>2"
      by (simp add: algebra_simps)
    with Rhi Plo show ?thesis by linarith
  qed
qed

lemma flat_chart_merge: "merge_frames (prices (flat_chart v)) (total_volumes (flat_chart v)) = flat_rows v"
  by (simp add: flat_chart_def merge_frames_def flat_rows_def)

lemma flat_rows_mean: "mean (map volume (flat_rows v)) = v"
  by (simp add: flat_rows_def mean_def)

lemma double_rates:
  "tax_rate_of double_rates_monitor ''finvesta'' = 3602879701896397 / 2 ^ 56"
  "daily_roi_of double_rates_monitor ''finvesta'' = 5764607523034235 / 2 ^ 59"
  "data_cache double_rates_monitor (cache_key ''finvesta'' 30 ''usd'') = None"
  unfolding double_rates_monitor_def double_0_05 double_0_01
  by (simp_all add: tax_rate_of_def daily_roi_of_def finvesta_monitor_def
      set_token_tax_rate_def set_token_roi_expectation_def)

lemma flat_chart_data:
  "fst (get_token_data (steady_market (flat_chart v)) double_rates_monitor ''finvesta'' 30 ''usd'') =
     Some (flat_rows v)"
  using steady_market_uncached [OF double_rates(3), of "flat_chart v"]
  by (simp add: flat_chart_merge)

lemma revenue_3: "binary64 (3 * (3602879701896397 / 2 ^ 56)) = 5404319552844596 / 2 ^ 55"
  using binary64_eqI [where n = 55 and x = "3 * (3602879701896397 / 2 ^ 56)" and m = 5404319552844596]
  by (simp add: round_even_def Let_def)

lemma supply_3: "binary64 30 = 30"
  using binary64_eqI [where n = 48 and x = 30 and m = "30 * 2 ^ 48"]
  by (simp add: round_even_def Let_def)

lemma payouts_3: "binary64 (30 * (5764607523034235 / 2 ^ 59)) = 5404319552844595 / 2 ^ 54"
  using binary64_eqI [where n = 54 and x = "30 * (5764607523034235 / 2 ^ 59)" and m = 5404319552844595]
  by (simp add: round_even_def Let_def)

lemma ratio_3:
  "binary64 ((5404319552844596 / 2 ^ 55) / (5404319552844595 / 2 ^ 54)) = 4503599627370497 / 2 ^ 53"
  using binary64_eqI [where n = 53 and x = "(5404319552844596 / 2 ^ 55) / (5404319552844595 / 2 ^ 54)"
      and m = 4503599627370497]
  by (simp add: round_even_def Let_def)

lemma revenue_1: "binary64 (1 * (3602879701896397 / 2 ^ 56)) = 3602879701896397 / 2 ^ 56"
  using binary64_eqI [where n = 57 and x = "1 * (3602879701896397 / 2 ^ 56)" and m = 7205759403792794]
  by (simp add: round_even_def Let_def)

lemma supply_1: "binary64 10 = 10"
  using binary64_eqI [where n = 49 and x = 10 and m = "10 * 2 ^ 49"]
  by (simp add: round_even_def Let_def)

lemma payouts_1: "binary64 (10 * (5764607523034235 / 2 ^ 59)) = 3602879701896397 / 2 ^ 55"
  using binary64_eqI [where n = 56 and x = "10 * (5764607523034235 / 2 ^ 59)" and m = 7205759403792794]
  by (simp add: round_even_def Let_def)

lemma ratio_1:
  "binary64 ((3602879701896397 / 2 ^ 56) / (3602879701896397 / 2 ^ 55)) = 1 / 2"
  using binary64_eqI [where n = 53 and x = "(3602879701896397 / 2 ^ 56) / (3602879701896397 / 2 ^ 55)"
      and m = "2 ^ 52"]
  by (simp add: round_even_def Let_def)

lemma volumes_3_report:
  "fst (check_token_sustainability_fl binary64 mean (steady_market (flat_chart 3))
         double_rates_monitor ''finvesta'' True) =
     Some (check_sustainability_fl binary64 ''finvesta'' 3 (3602879701896397 / 2 ^ 56) 30
             (5764607523034235 / 2 ^ 59))"
proof -
  have ne: "flat_rows 3 \<noteq> []" by (simp add: flat_rows_def)
  have s: "binary64 (3 * 10) = 30" using supply_3 by simp
  show ?thesis
    using check_token_sustainability_fl_Some [OF flat_chart_data ne, of binary64 mean]
    by (simp only: flat_rows_mean double_rates s)
qed

lemma volumes_1_report:
  "fst (check_token_sustainability_fl binary64 mean (steady_market (flat_chart 1))
         double_rates_monitor ''finvesta'' True) =
     Some (check_sustainability_fl binary64 ''finvesta'' 1 (3602879701896397 / 2 ^ 56) 10
             (5764607523034235 / 2 ^ 59))"
proof -
  have ne: "flat_rows 1 \<noteq> []" by (simp add: flat_rows_def)
  have s: "binary64 (1 * 10) = 10" using supply_1 by simp
  show ?thesis
    using check_token_sustainability_fl_Some [OF flat_chart_data ne, of binary64 mean]
    by (simp only: flat_rows_mean double_rates s)
qed

lemma volumes_3_ratio:
  "sustainability_ratio (check_sustainability_fl binary64 ''finvesta'' 3 (3602879701896397 / 2 ^ 56) 30
             (5764607523034235 / 2 ^ 59)) = Fin (4503599627370497 / 2 ^ 53)"
  by (simp only: check_sustainability_fl_def Let_def revenue_3 payouts_3 ratio_3) simp

lemma volumes_1_ratio:
  "sustainability_ratio (check_sustainability_fl binary64 ''finvesta'' 1 (3602879701896397 / 2 ^ 56) 10
             (5764607523034235 / 2 ^ 59)) = Fin (1 / 2)"
  by (simp only: check_sustainability_fl_def Let_def revenue_1 payouts_1 ratio_1) simp

lemma volumes_3_accurate:
  "accurate (1 / 2 ^ 53) binary64
     (mean (map volume (flat_rows 3)) * tax_rate_of double_rates_monitor ''finvesta'')"
  "accurate (1 / 2 ^ 53) binary64 (mean (map volume (flat_rows 3)) * 10)"
  "accurate (1 / 2 ^ 53) binary64
     (binary64 (mean (map volume (flat_rows 3)) * 10) * daily_roi_of double_rates_monitor ''finvesta'')"
  "accurate (1 / 2 ^ 53) binary64
     (binary64 (mean (map volume (flat_rows 3)) * tax_rate_of double_rates_monitor ''finvesta'') /
      binary64 (binary64 (mean (map volume (flat_rows 3)) * 10) *
                daily_roi_of double_rates_monitor ''finvesta''))"
  by (rule binary64_accurate)+

text \<open>
  Claim C9, as the code has it in floating point. Take a token with data, a computed mean
  volume above 0 and a tax rate that is not negative, evaluated with the estimated supply
  (ten times the mean volume), and let each of the four arithmetic results (revenue,
  supply, payouts, ratio) be stored within the relative error \<open>u < 1\<close>. Then a report is
  returned. For a daily ROI above 0 its ratio is finite and lies between
  \<open>tax_rate / (10 * daily_roi)\<close> times \<open>((1 - u) / (1 + u))\<^sup>2\<close> and times
  \<open>((1 + u) / (1 - u))\<^sup>2\<close>: it is \<open>tax_rate / (10 * daily_roi)\<close> when nothing is
  rounded (\<open>u = 0\<close>), and with rounding it depends on the series, but only within this
  margin. The token is judged unsustainable as soon as
  \<open>tax_rate * (1 + u) < 10 * daily_roi * (1 - u)\<^sup>2\<close>. For the error of the 64-bit
  format (\<open>binary64_accurate\<close>) and rates whose quotient \<open>tax_rate / (10 * daily_roi)\<close>
  is within \<open>2\<^sup>-\<^sup>5\<^sup>5\<close> of 1/2, as the floats 0.05 and 0.01 are, the ratio is within
  \<open>2\<^sup>-\<^sup>5\<^sup>1\<close> of 0.5 and the token is judged unsustainable. For a daily ROI that is not
  above 0 the ratio is plus infinity.
\<close>

theorem estimated_supply_ratio_rounded:
  fixes average :: "real list \<Rightarrow> real" and data :: "row list" and m :: monitor and tid :: string
  defines "avg \<equiv> average (map volume data)"
  defines "rate \<equiv> tax_rate_of m tid"
  defines "roi \<equiv> daily_roi_of m tid"
  assumes data: "fst (get_token_data mkt m tid 30 ''usd'') = Some data" "data \<noteq> []"
    and avg: "0 < avg"
    and rate: "0 \<le> rate"
    and u: "0 \<le> u" "u < 1"
    and R: "accurate u rnd (avg * rate)"
    and S: "accurate u rnd (avg * 10)"
    and P: "accurate u rnd (rnd (avg * 10) * roi)"
    and Q: "accurate u rnd (rnd (avg * rate) / rnd (rnd (avg * 10) * roi))"
  shows "\<exists>r. fst (check_token_sustainability_fl rnd average mkt m tid True) = Some r \<and>
           (0 < roi \<longrightarrow>
              (\<exists>q. sustainability_ratio r = Fin q \<and>
                   rate / (10 * roi) * ((1 - u) / (1 + u))\<^sup>2 \<le> q \<and>
                   q \<le> rate / (10 * roi) * ((1 + u) / (1 - u))\<^sup>2)) \<and>
           (0 < roi \<and> u = 0 \<longrightarrow> sustainability_ratio r = Fin (rate / (10 * roi))) \<and>
           (0 < roi \<and> rate * (1 + u) < 10 * roi * (1 - u)\<^sup>2 \<longrightarrow> \<not> is_sustainable r) \<and>
           (0 < roi \<and> u = 1 / 2 ^ 53 \<and> \<bar>rate / (10 * roi) - 1 / 2\<bar> \<le> 1 / 2 ^ 55 \<longrightarrow>
              (\<exists>q. sustainability_ratio r = Fin q \<and> \<bar>q - 1 / 2\<bar> \<le> 1 / 2 ^ 51) \<and>
              \<not> is_sustainable r) \<and>
           (roi \<le> 0 \<longrightarrow> sustainability_ratio r = PInf)"
proof -
  let ?r = "check_sustainability_fl rnd tid avg rate (rnd (avg * 10)) roi"
  have r: "fst (check_token_sustainability_fl rnd average mkt m tid True) = Some ?r"
    unfolding avg_def rate_def roi_def by (rule check_token_sustainability_fl_Some [OF data])
  have ratio: "sustainability_ratio ?r =
      (if 0 < rnd (rnd (avg * 10) * roi)
       then Fin (rnd (rnd (avg * rate) / rnd (rnd (avg * 10) * roi))) else PInf)"
    by (simp add: check_sustainability_fl_def Let_def)
  have sust: "is_sustainable ?r = (rnd (rnd (avg * 10) * roi) \<le> rnd (avg * rate))"
    by (simp add: check_sustainability_fl_def Let_def)
  have pos: "\<exists>q. sustainability_ratio ?r = Fin q \<and>
                   rate / (10 * roi) * ((1 - u) / (1 + u))\<^sup>2 \<le> q \<and>
                   q \<le> rate / (10 * roi) * ((1 + u) / (1 - u))\<^sup>2" if "0 < roi"
  proof -
    note b = rounded_ratio_bounds(1-3) [OF avg rate that u R S P Q]
    have "sustainability_ratio ?r = Fin (rnd (rnd (avg * rate) / rnd (rnd (avg * 10) * roi)))"
      unfolding ratio using b(1) by (rule if_P)
    with b(2,3) show ?thesis by blast
  qed
  have exact: "sustainability_ratio ?r = Fin (rate / (10 * roi))" if "0 < roi" "u = 0"
  proof -
    from pos [OF that(1)] obtain q where q: "sustainability_ratio ?r = Fin q"
      and lo: "rate / (10 * roi) * ((1 - u) / (1 + u))\<^sup>2 \<le> q"
      and hi: "q \<le> rate / (10 * roi) * ((1 + u) / (1 - u))\<^sup>2" by blast
    from lo hi have "q = rate / (10 * roi)" unfolding that(2) by simp
    with q show ?thesis by simp
  qed
  have unsust: "\<not> is_sustainable ?r" if "0 < roi" "rate * (1 + u) < 10 * roi * (1 - u)\<^sup>2"
    unfolding sust
    using rounded_ratio_bounds(4) [OF avg rate that(1) u R S P Q that(2)] by linarith
  have dflt: "(\<exists>q. sustainability_ratio ?r = Fin q \<and> \<bar>q - 1 / 2\<bar> \<le> 1 / 2 ^ 51) \<and>
              \<not> is_sustainable ?r"
    if roi: "0 < roi" and u53: "u = 1 / 2 ^ 53" and t: "\<bar>rate / (10 * roi) - 1 / 2\<bar> \<le> 1 / 2 ^ 55"
  proof -
    let ?t = "rate / (10 * roi)"
    let ?L = "((1 - 1 / 2 ^ 53) / (1 + 1 / 2 ^ 53 :: real))\<^sup>2"
    let ?H = "((1 + 1 / 2 ^ 53) / (1 - 1 / 2 ^ 53 :: real))\<^sup>2"
    from t have "?t - 1 / 2 \<le> 1 / 2 ^ 55 \<and> - (?t - 1 / 2) \<le> 1 / 2 ^ 55"
      by (simp only: abs_le_iff)
    then have tlo: "1 / 2 - 1 / 2 ^ 55 \<le> ?t" and thi: "?t \<le> 1 / 2 + 1 / 2 ^ 55"
      by linarith+
    from pos [OF roi] obtain q where q: "sustainability_ratio ?r = Fin q"
      and lo: "?t * ?L \<le> q" and hi: "q \<le> ?t * ?H"
      unfolding u53 by blast
    have "?t * ?H \<le> (1 / 2 + 1 / 2 ^ 55) * ?H"
      using thi by (rule mult_right_mono) simp
    also have "\<dots> \<le> 1 / 2 + 1 / 2 ^ 51"
      by (simp add: power2_eq_square)
    finally have qhi: "q \<le> 1 / 2 + 1 / 2 ^ 51" using hi by linarith
    have "1 / 2 - 1 / 2 ^ 51 \<le> (1 / 2 - 1 / 2 ^ 55) * ?L"
      by (simp add: power2_eq_square)
    also have "\<dots> \<le> ?t * ?L"
      using tlo by (rule mult_right_mono) simp
    finally have qlo: "1 / 2 - 1 / 2 ^ 51 \<le> q" using lo by linarith
    from qlo qhi have "q - 1 / 2 \<le> 1 / 2 ^ 51 \<and> - (q - 1 / 2) \<le> 1 / 2 ^ 51"
      by linarith
    then have near: "\<bar>q - 1 / 2\<bar> \<le> 1 / 2 ^ 51"
      by (simp only: abs_le_iff)
    have r10: "0 < 10 * roi" using roi by simp
    from thi r10 have "rate \<le> (1 / 2 + 1 / 2 ^ 55) * (10 * roi)"
      by (simp only: pos_divide_le_eq)
    then have "rate * (1 + 1 / 2 ^ 53) \<le> (1 / 2 + 1 / 2 ^ 55) * (10 * roi) * (1 + 1 / 2 ^ 53)"
      by (rule mult_right_mono) simp
    also have "\<dots> = (10 * roi) * ((1 / 2 + 1 / 2 ^ 55) * (1 + 1 / 2 ^ 53))"
      by (simp only: mult.commute mult.left_commute mult.assoc)
    also have "\<dots> < (10 * roi) * (1 - 1 / 2 ^ 53)\<^sup>2"
      using r10 by (rule mult_strict_left_mono [rotated]) (simp add: power2_eq_square)
    finally have "rate * (1 + u) < 10 * roi * (1 - u)\<^sup>2"
      unfolding u53 by (simp only: mult.assoc)
    with unsust [OF roi] have "\<not> is_sustainable ?r" by blast
    with q near show ?thesis by blast
  qed
  have npos: "sustainability_ratio ?r = PInf" if "roi \<le> 0"
  proof -
    have "0 < rnd (avg * 10)" using avg u(2) S by (rule rounded_supply_pos)
    with that have z: "rnd (avg * 10) * roi \<le> 0" by (simp add: mult_nonneg_nonpos)
    have u1: "u \<le> 1" using u(2) by simp
    have "rnd (rnd (avg * 10) * roi) \<le> 0"
      using P z u1 by (rule accurate_nonpos)
    then have "\<not> 0 < rnd (rnd (avg * 10) * roi)" by linarith
    then show ?thesis unfolding ratio by (rule if_not_P)
  qed
  show ?thesis
  proof (intro exI [of _ ?r] conjI impI)
    show "fst (check_token_sustainability_fl rnd average mkt m tid True) = Some ?r" by (rule r)
  qed (use pos exact unsust dflt npos in blast)+
qed

text \<open>
  The default rates 0.05 and 0.01 and a chart with the volume 3 at both points, in the
  64-bit format: the four results are accurate to \<open>2\<^sup>-\<^sup>5\<^sup>3\<close>, the ratio is within the
  margin and within \<open>2\<^sup>-\<^sup>5\<^sup>1\<close> of 0.5, and the token is judged unsustainable.
\<close>

theorem estimated_supply_ratio_rounded_witness:
  "fst (get_token_data (steady_market (flat_chart 3)) double_rates_monitor ''finvesta'' 30 ''usd'') =
     Some (flat_rows 3) \<and>
   mean (map volume (flat_rows 3)) = 3 \<and>
   tax_rate_of double_rates_monitor ''finvesta'' = 3602879701896397 / 2 ^ 56 \<and>
   daily_roi_of double_rates_monitor ''finvesta'' = 5764607523034235 / 2 ^ 59 \<and>
   accurate (1 / 2 ^ 53) binary64
     (mean (map volume (flat_rows 3)) * tax_rate_of double_rates_monitor ''finvesta'') \<and>
   accurate (1 / 2 ^ 53) binary64 (mean (map volume (flat_rows 3)) * 10) \<and>
   accurate (1 / 2 ^ 53) binary64
     (binary64 (mean (map volume (flat_rows 3)) * 10) * daily_roi_of double_rates_monitor ''finvesta'') \<and>
   accurate (1 / 2 ^ 53) binary64
     (binary64 (mean (map volume (flat_rows 3)) * tax_rate_of double_rates_monitor ''finvesta'') /
      binary64 (binary64 (mean (map volume (flat_rows 3)) * 10) *
                daily_roi_of double_rates_monitor ''finvesta'')) \<and>
   \<bar>tax_rate_of double_rates_monitor ''finvesta'' /
      (10 * daily_roi_of double_rates_monitor ''finvesta'') - 1 / 2\<bar> \<le> 1 / 2 ^ 55 \<and>
   (\<exists>r q. fst (check_token_sustainability_fl binary64 mean (steady_market (flat_chart 3))
                double_rates_monitor ''finvesta'' True) = Some r \<and>
          sustainability_ratio r = Fin q \<and>
          tax_rate_of double_rates_monitor ''finvesta'' /
            (10 * daily_roi_of double_rates_monitor ''finvesta'') *
            ((1 - 1 / 2 ^ 53) / (1 + 1 / 2 ^ 53))\<^sup>2 \<le> q \<and>
          q \<le> tax_rate_of double_rates_monitor ''finvesta'' /
            (10 * daily_roi_of double_rates_monitor ''finvesta'') *
            ((1 + 1 / 2 ^ 53) / (1 - 1 / 2 ^ 53))\<^sup>2 \<and>
          \<bar>q - 1 / 2\<bar> \<le> 1 / 2 ^ 51 \<and>
          \<not> is_sustainable r)"
proof -
  have ne: "flat_rows 3 \<noteq> []" by (simp add: flat_rows_def)
  have half: "\<bar>tax_rate_of double_rates_monitor ''finvesta'' /
                (10 * daily_roi_of double_rates_monitor ''finvesta'') - 1 / 2\<bar> \<le> 1 / 2 ^ 55"
    unfolding double_rates by simp
  have avg: "0 < mean (map volume (flat_rows 3))" unfolding flat_rows_mean by simp
  have rate: "0 \<le> tax_rate_of double_rates_monitor ''finvesta''" unfolding double_rates by simp
  have roi: "0 < daily_roi_of double_rates_monitor ''finvesta''" unfolding double_rates by simp
  have u: "(0::real) \<le> 1 / 2 ^ 53" "(1::real) / 2 ^ 53 < 1" by simp_all
  have less: "tax_rate_of double_rates_monitor ''finvesta'' * (1 + 1 / 2 ^ 53)
      < 10 * daily_roi_of double_rates_monitor ''finvesta'' * (1 - 1 / 2 ^ 53)\<^sup>2"
    unfolding double_rates by (simp add: power2_eq_square)
  from estimated_supply_ratio_rounded
    [where rnd = binary64 and average = mean and mkt = "steady_market (flat_chart 3)"
       and m = double_rates_monitor and tid = "''finvesta''" and data = "flat_rows 3"
       and u = "1 / 2 ^ 53",
     OF flat_chart_data ne avg rate u volumes_3_accurate]
  obtain r where r: "fst (check_token_sustainability_fl binary64 mean (steady_market (flat_chart 3))
                double_rates_monitor ''finvesta'' True) = Some r"
    and b: "0 < daily_roi_of double_rates_monitor ''finvesta'' \<longrightarrow>
            (\<exists>q. sustainability_ratio r = Fin q \<and>
          tax_rate_of double_rates_monitor ''finvesta'' /
            (10 * daily_roi_of double_rates_monitor ''finvesta'') *
            ((1 - 1 / 2 ^ 53) / (1 + 1 / 2 ^ 53))\<^sup>2 \<le> q \<and>
          q \<le> tax_rate_of double_rates_monitor ''finvesta'' /
            (10 * daily_roi_of double_rates_monitor ''finvesta'') *
            ((1 + 1 / 2 ^ 53) / (1 - 1 / 2 ^ 53))\<^sup>2)"
    and n: "0 < daily_roi_of double_rates_monitor ''finvesta'' \<and>
            tax_rate_of double_rates_monitor ''finvesta'' * (1 + 1 / 2 ^ 53)
              < 10 * daily_roi_of double_rates_monitor ''finvesta'' * (1 - 1 / 2 ^ 53)\<^sup>2 \<longrightarrow>
            \<not> is_sustainable r"
    and d: "0 < daily_roi_of double_rates_monitor ''finvesta'' \<and> (1 / 2 ^ 53 :: real) = 1 / 2 ^ 53 \<and>
            \<bar>tax_rate_of double_rates_monitor ''finvesta'' /
                (10 * daily_roi_of double_rates_monitor ''finvesta'') - 1 / 2\<bar> \<le> 1 / 2 ^ 55 \<longrightarrow>
            (\<exists>q. sustainability_ratio r = Fin q \<and> \<bar>q - 1 / 2\<bar> \<le> 1 / 2 ^ 51) \<and>
            \<not> is_sustainable r"
    by blast
  from b roi obtain q where q: "sustainability_ratio r = Fin q"
    and lo: "tax_rate_of double_rates_monitor ''finvesta'' /
            (10 * daily_roi_of double_rates_monitor ''finvesta'') *
            ((1 - 1 / 2 ^ 53) / (1 + 1 / 2 ^ 53))\<^sup>2 \<le> q"
    and hi: "q \<le> tax_rate_of double_rates_monitor ''finvesta'' /
            (10 * daily_roi_of double_rates_monitor ''finvesta'') *
            ((1 + 1 / 2 ^ 53) / (1 - 1 / 2 ^ 53))\<^sup>2"
    by blast
  from n roi less have ns: "\<not> is_sustainable r" by blast
  from d roi half obtain q' where "sustainability_ratio r = Fin q'" "\<bar>q' - 1 / 2\<bar> \<le> 1 / 2 ^ 51"
    by blast
  with q have near: "\<bar>q - 1 / 2\<bar> \<le> 1 / 2 ^ 51" by simp
  show ?thesis
    using flat_chart_data flat_rows_mean [of 3] double_rates(1,2) volumes_3_accurate half r q lo hi
      near ns
    by blast
qed

text \<open>
  The ratio is not always exactly 0.5 and not the same for every series. With the default
  rates 0.05 and 0.01 in the 64-bit format, the volumes 3, 3 (mean 3) give the ratio
  \<open>4503599627370497 / 2\<^sup>5\<^sup>3\<close>, which is 0.5000000000000001, and the volumes 1, 1
  (mean 1) give 0.5.
\<close>

theorem rounded_ratio_counterexample:
  "tax_rate_of double_rates_monitor ''finvesta'' = binary64 (5 / 100) \<and>
   daily_roi_of double_rates_monitor ''finvesta'' = binary64 (1 / 100) \<and>
   mean (map volume (flat_rows 3)) = 3 \<and> mean (map volume (flat_rows 1)) = 1 \<and>
   (\<exists>r. fst (check_token_sustainability_fl binary64 mean (steady_market (flat_chart 3))
              double_rates_monitor ''finvesta'' True) = Some r \<and>
        sustainability_ratio r = Fin (4503599627370497 / 2 ^ 53)) \<and>
   (\<exists>r. fst (check_token_sustainability_fl binary64 mean (steady_market (flat_chart 1))
              double_rates_monitor ''finvesta'' True) = Some r \<and>
        sustainability_ratio r = Fin (1 / 2)) \<and>
   (4503599627370497 / 2 ^ 53 :: real) \<noteq> 1 / 2"
proof -
  have t: "tax_rate_of double_rates_monitor ''finvesta'' = binary64 (5 / 100)"
    unfolding double_0_05 by (rule double_rates(1))
  have d: "daily_roi_of double_rates_monitor ''finvesta'' = binary64 (1 / 100)"
    unfolding double_0_01 by (rule double_rates(2))
  have a: "\<exists>r. fst (check_token_sustainability_fl binary64 mean (steady_market (flat_chart 3))
              double_rates_monitor ''finvesta'' True) = Some r \<and>
        sustainability_ratio r = Fin (4503599627370497 / 2 ^ 53)"
    using volumes_3_report volumes_3_ratio by blast
  have b: "\<exists>r. fst (check_token_sustainability_fl binary64 mean (steady_market (flat_chart 1))
              double_rates_monitor ''finvesta'' True) = Some r \<and>
        sustainability_ratio r = Fin (1 / 2)"
    using volumes_1_report volumes_1_ratio by blast
  have n: "(4503599627370497 / 2 ^ 53 :: real) \<noteq> 1 / 2" by simp
  show ?thesis
    using t d flat_rows_mean [of 3] flat_rows_mean [of 1] a b n by blast
qed

lemma revenue_07: "binary64 (3152519739159347 / 2 ^ 52 * (3602879701896397 / 2 ^ 56)) = 5044031582654955 / 2 ^ 57"
  using binary64_eqI [where n = 57 and x = "3152519739159347 / 2 ^ 52 * (3602879701896397 / 2 ^ 56)" and m = 5044031582654955]
  by (simp add: round_even_def Let_def)

lemma supply_07: "binary64 (3152519739159347 / 2 ^ 52 * 10) = 7"
  using binary64_eqI [where n = 50 and x = "3152519739159347 / 2 ^ 52 * 10" and m = 7881299347898368]
  by (simp add: round_even_def Let_def)

lemma payouts_07: "binary64 (7 * (5764607523034235 / 2 ^ 60)) = 1261007895663739 / 2 ^ 55"
  using binary64_eqI [where n = 57 and x = "7 * (5764607523034235 / 2 ^ 60)" and m = 5044031582654956]
  by (simp add: round_even_def Let_def)

lemma payouts_1_flexboost: "binary64 (10 * (5764607523034235 / 2 ^ 60)) = 3602879701896397 / 2 ^ 56"
  using binary64_eqI [where n = 57 and x = "10 * (5764607523034235 / 2 ^ 60)" and m = 7205759403792794]
  by (simp add: round_even_def Let_def)

lemma supply_1': "binary64 (1 * 10) = 10"
  using supply_1 by simp

lemma revenue_1': "binary64 (1 * (3602879701896397 / 2 ^ 56)) = 3602879701896397 / 2 ^ 56"
  by (rule revenue_1)

lemma flexboost_rates:
  "tax_rate_of flexboost_monitor ''flexboost'' = 3602879701896397 / 2 ^ 56"
  "daily_roi_of flexboost_monitor ''flexboost'' = 5764607523034235 / 2 ^ 60"
  "data_cache flexboost_monitor (cache_key ''flexboost'' 30 ''usd'') = None"
  unfolding flexboost_monitor_def double_0_05 double_0_005
  by (simp_all add: tax_rate_of_def daily_roi_of_def finvesta_monitor_def
      set_token_tax_rate_def set_token_roi_expectation_def)

lemma flexboost_chart_data:
  "fst (get_token_data (steady_market (flat_chart v)) flexboost_monitor ''flexboost'' 30 ''usd'') =
     Some (flat_rows v)"
  using steady_market_uncached [OF flexboost_rates(3), of "flat_chart v"]
  by (simp add: flat_chart_merge)

lemma flexboost_report:
  "fst (check_token_sustainability_fl binary64 mean (steady_market (flat_chart v))
         flexboost_monitor ''flexboost'' True) =
     Some (check_sustainability_fl binary64 ''flexboost'' v (3602879701896397 / 2 ^ 56)
             (binary64 (v * 10)) (5764607523034235 / 2 ^ 60))"
proof -
  have ne: "flat_rows v \<noteq> []" by (simp add: flat_rows_def)
  show ?thesis
    using check_token_sustainability_fl_Some [OF flexboost_chart_data ne, of binary64 mean]
    by (simp only: flat_rows_mean flexboost_rates)
qed

text \<open>
  Where the exact quotient is 1, the verdict depends on the series as well: with the
  rates 0.05 and 0.005 the volumes 1, 1 give a sustainable token and the volumes 0.7, 0.7
  an unsustainable one.
\<close>

lemma verdict_depends_on_series:
  "tax_rate_of flexboost_monitor ''flexboost'' = binary64 (5 / 100) \<and>
   daily_roi_of flexboost_monitor ''flexboost'' = binary64 (5 / 1000) \<and>
   (\<exists>r. fst (check_token_sustainability_fl binary64 mean (steady_market (flat_chart 1))
              flexboost_monitor ''flexboost'' True) = Some r \<and> is_sustainable r) \<and>
   (\<exists>r. fst (check_token_sustainability_fl binary64 mean
              (steady_market (flat_chart (binary64 (7 / 10))))
              flexboost_monitor ''flexboost'' True) = Some r \<and> \<not> is_sustainable r)"
proof -
  have t: "tax_rate_of flexboost_monitor ''flexboost'' = binary64 (5 / 100)"
    unfolding double_0_05 by (rule flexboost_rates(1))
  have d: "daily_roi_of flexboost_monitor ''flexboost'' = binary64 (5 / 1000)"
    unfolding double_0_005 by (rule flexboost_rates(2))
  have "is_sustainable (check_sustainability_fl binary64 ''flexboost'' 1 (3602879701896397 / 2 ^ 56)
             (binary64 (1 * 10)) (5764607523034235 / 2 ^ 60))"
    unfolding is_sustainable_fl supply_1' revenue_1' payouts_1_flexboost by simp
  with flexboost_report [of 1]
  have a: "\<exists>r. fst (check_token_sustainability_fl binary64 mean (steady_market (flat_chart 1))
              flexboost_monitor ''flexboost'' True) = Some r \<and> is_sustainable r"
    by blast
  have "\<not> is_sustainable (check_sustainability_fl binary64 ''flexboost'' (3152519739159347 / 2 ^ 52)
             (3602879701896397 / 2 ^ 56)
             (binary64 (3152519739159347 / 2 ^ 52 * 10)) (5764607523034235 / 2 ^ 60))"
    unfolding is_sustainable_fl supply_07 revenue_07 payouts_07 by simp
  with flexboost_report [of "3152519739159347 / 2 ^ 52"]
  have b: "\<exists>r. fst (check_token_sustainability_fl binary64 mean
              (steady_market (flat_chart (binary64 (7 / 10))))
              flexboost_monitor ''flexboost'' True) = Some r \<and> \<not> is_sustainable r"
    unfolding double_0_7 by blast
  show ?thesis using t d a b by blast
qed

section \<open>Properties of the series cache\<close>

lemma get_token_data_hit:
  "data_cache m (cache_key tid d c) = Some df \<Longrightarrow> get_token_data mkt m tid d c = (Some df, m)"
  by (simp add: get_token_data_def)

lemma get_token_data_failed:
  assumes "data_cache m (cache_key tid d c) = None"
    and "fetch_failed (mkt (length (requests_sent m)) (chart_url tid d c))"
  shows "get_token_data mkt m tid d c =
           (None, m\<lparr> requests_sent := requests_sent m @ [chart_url tid d c] \<rparr>)"
  using assms
  by (simp add: get_token_data_def Let_def fetch_failed_def split: response.splits)

lemma get_token_data_fetched:
  assumes "data_cache m (cache_key tid d c) = None"
    and "mkt (length (requests_sent m)) (chart_url tid d c) = Http 200 body"
  shows "get_token_data mkt m tid d c =
           (Some (merge_frames (prices body) (total_volumes body)),
            m\<lparr> requests_sent := requests_sent m @ [chart_url tid d c],
               data_cache := (data_cache m)(cache_key tid d c \<mapsto>
                 merge_frames (prices body) (total_volumes body)) \<rparr>)"
  using assms by (simp add: get_token_data_def Let_def)

lemma get_token_data_miss_requests:
  "data_cache m (cache_key tid d c) = None \<Longrightarrow>
   requests_sent (snd (get_token_data mkt m tid d c)) = requests_sent m @ [chart_url tid d c]"
  by (simp add: get_token_data_def Let_def split: response.splits)

text \<open>
  Claim C7, as the code has it. The cache key is the text \<open>token_days_currency\<close>. On a
  hit the cached series is returned and the monitor is unchanged: no request is sent,
  whatever the data source would answer. On a miss one request is sent. When it fails (it
  raises, or the status is not 200) the caller receives \<open>None\<close> and the cache is
  unchanged, so the next call with the same key sends the request again. When it answers
  with status 200, the frame built from the answer is stored under the key and returned,
  empty or not, and the next call with the same key returns it without a request.
\<close>

theorem series_cache_behaviour:
  "(\<forall>df. data_cache m (cache_key tid d c) = Some df \<longrightarrow>
      get_token_data mkt m tid d c = (Some df, m)) \<and>
   (data_cache m (cache_key tid d c) = None \<and>
    fetch_failed (mkt (length (requests_sent m)) (chart_url tid d c)) \<longrightarrow>
      get_token_data mkt m tid d c =
        (None, m\<lparr> requests_sent := requests_sent m @ [chart_url tid d c] \<rparr>) \<and>
      (\<forall>mkt'. requests_sent (snd (get_token_data mkt' (snd (get_token_data mkt m tid d c)) tid d c)) =
         requests_sent m @ [chart_url tid d c, chart_url tid d c])) \<and>
   (\<forall>body. data_cache m (cache_key tid d c) = None \<and>
      mkt (length (requests_sent m)) (chart_url tid d c) = Http 200 body \<longrightarrow>
      get_token_data mkt m tid d c =
        (Some (merge_frames (prices body) (total_volumes body)),
         m\<lparr> requests_sent := requests_sent m @ [chart_url tid d c],
            data_cache := (data_cache m)(cache_key tid d c \<mapsto>
              merge_frames (prices body) (total_volumes body)) \<rparr>) \<and>
      (\<forall>mkt'. get_token_data mkt' (snd (get_token_data mkt m tid d c)) tid d c =
         (Some (merge_frames (prices body) (total_volumes body)),
          snd (get_token_data mkt m tid d c))))"
proof (intro conjI allI impI)
  fix df assume "data_cache m (cache_key tid d c) = Some df"
  then show "get_token_data mkt m tid d c = (Some df, m)" by (rule get_token_data_hit)
next
  assume a: "data_cache m (cache_key tid d c) = None \<and>
    fetch_failed (mkt (length (requests_sent m)) (chart_url tid d c))"
  then show f: "get_token_data mkt m tid d c =
        (None, m\<lparr> requests_sent := requests_sent m @ [chart_url tid d c] \<rparr>)"
    by (simp add: get_token_data_failed)
  fix mkt'
  from a have "data_cache (m\<lparr> requests_sent := requests_sent m @ [chart_url tid d c] \<rparr>)
      (cache_key tid d c) = None" by simp
  from get_token_data_miss_requests [OF this, of mkt']
  show "requests_sent (snd (get_token_data mkt' (snd (get_token_data mkt m tid d c)) tid d c)) =
         requests_sent m @ [chart_url tid d c, chart_url tid d c]"
    by (simp add: f)
next
  fix body
  assume a: "data_cache m (cache_key tid d c) = None \<and>
      mkt (length (requests_sent m)) (chart_url tid d c) = Http 200 body"
  then show f: "get_token_data mkt m tid d c =
        (Some (merge_frames (prices body) (total_volumes body)),
         m\<lparr> requests_sent := requests_sent m @ [chart_url tid d c],
            data_cache := (data_cache m)(cache_key tid d c \<mapsto>
              merge_frames (prices body) (total_volumes body)) \<rparr>)"
    by (simp add: get_token_data_fetched)
  fix mkt'
  show "get_token_data mkt' (snd (get_token_data mkt m tid d c)) tid d c =
         (Some (merge_frames (prices body) (total_volumes body)),
          snd (get_token_data mkt m tid d c))"
    by (simp add: f get_token_data_hit)
qed

lemma hex_chart_url:
  "chart_url ''hex'' 30 ''usd'' =
    ''https://api.coingecko.com/api/v3/coins/hex/market_chart?vs_currency=usd&days=30''"
  by (simp add: chart_url_def coingecko_base_url_def str_int_def str_nat.simps digit_char_def)

lemma hex_cache_key: "cache_key ''hex'' 30 ''usd'' = ''hex_30_usd''"
  by (simp add: cache_key_def str_int_def str_nat.simps digit_char_def)

text \<open>
  A fresh monitor and the token \<open>hex\<close>: after a failed fetch the next call sends the
  request a second time; after a successful fetch the next call is served from the cache,
  even by a data source that fails.
\<close>

theorem series_cache_behaviour_witness:
  "cache_key ''hex'' 30 ''usd'' = ''hex_30_usd'' \<and>
   chart_url ''hex'' 30 ''usd'' =
     ''https://api.coingecko.com/api/v3/coins/hex/market_chart?vs_currency=usd&days=30'' \<and>
   data_cache finvesta_monitor (cache_key ''hex'' 30 ''usd'') = None \<and>
   fetch_failed (failing_market (length (requests_sent finvesta_monitor)) (chart_url ''hex'' 30 ''usd'')) \<and>
   get_token_data failing_market finvesta_monitor ''hex'' 30 ''usd'' =
     (None, finvesta_monitor\<lparr> requests_sent := [chart_url ''hex'' 30 ''usd''] \<rparr>) \<and>
   requests_sent (snd (get_token_data (steady_market two_prices)
       (snd (get_token_data failing_market finvesta_monitor ''hex'' 30 ''usd'')) ''hex'' 30 ''usd'')) =
     [chart_url ''hex'' 30 ''usd'', chart_url ''hex'' 30 ''usd''] \<and>
   fst (get_token_data (steady_market two_prices) finvesta_monitor ''hex'' 30 ''usd'') = Some two_rows \<and>
   get_token_data failing_market
       (snd (get_token_data (steady_market two_prices) finvesta_monitor ''hex'' 30 ''usd'')) ''hex'' 30 ''usd'' =
     (Some two_rows, snd (get_token_data (steady_market two_prices) finvesta_monitor ''hex'' 30 ''usd''))"
proof -
  have k: "data_cache finvesta_monitor (cache_key ''hex'' 30 ''usd'') = None"
    by (simp add: finvesta_monitor_def)
  have n: "requests_sent finvesta_monitor = []"
    by (simp add: finvesta_monitor_def)
  have f: "fetch_failed (failing_market (length (requests_sent finvesta_monitor)) (chart_url ''hex'' 30 ''usd''))"
    by (simp add: fetch_failed_def failing_market_def)
  have g: "steady_market two_prices (length (requests_sent finvesta_monitor)) (chart_url ''hex'' 30 ''usd'') =
             Http 200 two_prices"
    by (simp add: steady_market_def)
  note t1 = series_cache_behaviour [of finvesta_monitor "''hex''" 30 "''usd''" failing_market]
  note t2 = series_cache_behaviour [of finvesta_monitor "''hex''" 30 "''usd''" "steady_market two_prices"]
  from t1 k f have ab:
    "get_token_data failing_market finvesta_monitor ''hex'' 30 ''usd'' =
       (None, finvesta_monitor\<lparr> requests_sent :=
          requests_sent finvesta_monitor @ [chart_url ''hex'' 30 ''usd''] \<rparr>) \<and>
     (\<forall>mkt'. requests_sent (snd (get_token_data mkt'
          (snd (get_token_data failing_market finvesta_monitor ''hex'' 30 ''usd'')) ''hex'' 30 ''usd'')) =
        requests_sent finvesta_monitor @ [chart_url ''hex'' 30 ''usd'', chart_url ''hex'' 30 ''usd''])"
    by blast
  from ab have a:
    "get_token_data failing_market finvesta_monitor ''hex'' 30 ''usd'' =
       (None, finvesta_monitor\<lparr> requests_sent := [chart_url ''hex'' 30 ''usd''] \<rparr>)"
    by (simp only: n append_Nil)
  from ab have
    "requests_sent (snd (get_token_data (steady_market two_prices)
       (snd (get_token_data failing_market finvesta_monitor ''hex'' 30 ''usd'')) ''hex'' 30 ''usd'')) =
     requests_sent finvesta_monitor @ [chart_url ''hex'' 30 ''usd'', chart_url ''hex'' 30 ''usd'']"
    by blast
  then have b:
    "requests_sent (snd (get_token_data (steady_market two_prices)
       (snd (get_token_data failing_market finvesta_monitor ''hex'' 30 ''usd'')) ''hex'' 30 ''usd'')) =
     [chart_url ''hex'' 30 ''usd'', chart_url ''hex'' 30 ''usd'']"
    by (simp only: n append_Nil)
  from t2 k g have ce:
    "get_token_data (steady_market two_prices) finvesta_monitor ''hex'' 30 ''usd'' =
        (Some (merge_frames (prices two_prices) (total_volumes two_prices)),
         finvesta_monitor\<lparr> requests_sent := requests_sent finvesta_monitor @ [chart_url ''hex'' 30 ''usd''],
            data_cache := (data_cache finvesta_monitor)(cache_key ''hex'' 30 ''usd'' \<mapsto>
              merge_frames (prices two_prices) (total_volumes two_prices)) \<rparr>) \<and>
      (\<forall>mkt'. get_token_data mkt' (snd (get_token_data (steady_market two_prices) finvesta_monitor ''hex'' 30 ''usd'')) ''hex'' 30 ''usd'' =
         (Some (merge_frames (prices two_prices) (total_volumes two_prices)),
          snd (get_token_data (steady_market two_prices) finvesta_monitor ''hex'' 30 ''usd'')))"
    by blast
  from ce have c:
    "fst (get_token_data (steady_market two_prices) finvesta_monitor ''hex'' 30 ''usd'') = Some two_rows"
    by (simp add: two_prices_rows)
  from ce have
    "get_token_data failing_market
       (snd (get_token_data (steady_market two_prices) finvesta_monitor ''hex'' 30 ''usd'')) ''hex'' 30 ''usd'' =
     (Some (merge_frames (prices two_prices) (total_volumes two_prices)),
      snd (get_token_data (steady_market two_prices) finvesta_monitor ''hex'' 30 ''usd''))"
    by blast
  then have e:
    "get_token_data failing_market
       (snd (get_token_data (steady_market two_prices) finvesta_monitor ''hex'' 30 ''usd'')) ''hex'' 30 ''usd'' =
     (Some two_rows, snd (get_token_data (steady_market two_prices) finvesta_monitor ''hex'' 30 ''usd''))"
    by (simp only: two_prices_rows)
  show ?thesis
    using hex_cache_key hex_chart_url k f a b c e by blast
qed

text \<open>
  An answer with status 200 and no point: the empty frame is returned (not \<open>None\<close>)
  and stored, and the next call returns the stored empty frame without a request, although
  the data source now has two points.
\<close>

theorem cached_empty_counterexample:
  "steady_market empty_chart 0 (chart_url ''hex'' 30 ''usd'') = Http 200 empty_chart \<and>
   merge_frames (prices empty_chart) (total_volumes empty_chart) = [] \<and>
   get_token_data (steady_market empty_chart) finvesta_monitor ''hex'' 30 ''usd'' =
     (Some [],
      finvesta_monitor\<lparr> requests_sent := [chart_url ''hex'' 30 ''usd''],
                        data_cache := [cache_key ''hex'' 30 ''usd'' \<mapsto> []] \<rparr>) \<and>
   get_token_data (steady_market two_prices)
       (finvesta_monitor\<lparr> requests_sent := [chart_url ''hex'' 30 ''usd''],
                        data_cache := [cache_key ''hex'' 30 ''usd'' \<mapsto> []] \<rparr>) ''hex'' 30 ''usd'' =
     (Some [],
      finvesta_monitor\<lparr> requests_sent := [chart_url ''hex'' 30 ''usd''],
                        data_cache := [cache_key ''hex'' 30 ''usd'' \<mapsto> []] \<rparr>)"
proof -
  have e: "merge_frames (prices empty_chart) (total_volumes empty_chart) = []"
    by (simp add: empty_chart_def merge_frames_def)
  have k: "data_cache finvesta_monitor (cache_key ''hex'' 30 ''usd'') = None"
    by (simp add: finvesta_monitor_def)
  have a: "get_token_data (steady_market empty_chart) finvesta_monitor ''hex'' 30 ''usd'' =
     (Some [],
      finvesta_monitor\<lparr> requests_sent := [chart_url ''hex'' 30 ''usd''],
                        data_cache := [cache_key ''hex'' 30 ''usd'' \<mapsto> []] \<rparr>)"
    using get_token_data_fetched [OF k, of "steady_market empty_chart" empty_chart]
    by (simp add: steady_market_def e finvesta_monitor_def)
  have b: "get_token_data (steady_market two_prices)
       (finvesta_monitor\<lparr> requests_sent := [chart_url ''hex'' 30 ''usd''],
                        data_cache := [cache_key ''hex'' 30 ''usd'' \<mapsto> []] \<rparr>) ''hex'' 30 ''usd'' =
     (Some [],
      finvesta_monitor\<lparr> requests_sent := [chart_url ''hex'' 30 ''usd''],
                        data_cache := [cache_key ''hex'' 30 ''usd'' \<mapsto> []] \<rparr>)"
    by (rule get_token_data_hit) simp
  show ?thesis using e a b by (simp add: steady_market_def)
qed

section \<open>Properties of the wallet activity analyzer\<close>

lemma check_wallet_activity_Some:
  assumes "check_wallet_activity ldg m wn wa th = Some s"
    and "resolve_wallet m wn wa = Some a"
    and "ldg a = Some txs"
  shows "txs \<noteq> [] \<and> a \<noteq> [] \<and>
         s = \<lparr> wallet = (if truthy wn then the wn else a),
               total_transactions = length txs,
               incoming_transactions = length (incoming_txs a txs),
               outgoing_transactions = length (outgoing_txs a txs),
               large_transactions = length (large_txs th txs),
               latest_transaction = hd txs \<rparr>"
  using assms by (auto simp add: check_wallet_activity_def split: if_splits)

lemma newest_transaction_hd:
  assumes "txs \<noteq> []"
  shows "newest_transaction txs = Some (hd txs) \<longleftrightarrow>
         (\<forall>t \<in> set txs. timeStamp t \<le> timeStamp (hd txs))"
proof -
  from assms obtain x xs where txs: "txs = x # xs" by (cases txs) auto
  let ?M = "Max (timeStamp ` set txs)"
  have fin: "finite (timeStamp ` set txs)" by simp
  have ne: "timeStamp ` set txs \<noteq> {}" using assms by simp
  have max_iff: "timeStamp x = ?M \<longleftrightarrow> (\<forall>t \<in> set txs. timeStamp t \<le> timeStamp x)"
  proof
    assume "timeStamp x = ?M"
    then show "\<forall>t \<in> set txs. timeStamp t \<le> timeStamp x"
      using Max_ge [OF fin] by auto
  next
    assume "\<forall>t \<in> set txs. timeStamp t \<le> timeStamp x"
    then have "?M = timeStamp x"
      by (intro Max_eqI) (auto simp add: txs)
    then show "timeStamp x = ?M" by simp
  qed
  have "newest_transaction txs = Some x \<longleftrightarrow> timeStamp x = ?M"
  proof
    assume "newest_transaction txs = Some x"
    then show "timeStamp x = ?M"
      unfolding newest_transaction_def by (auto simp add: find_Some_iff)
  next
    assume "timeStamp x = ?M"
    then show "newest_transaction txs = Some x"
      unfolding newest_transaction_def by (simp add: txs)
  qed
  with max_iff show ?thesis by (simp add: txs)
qed

lemma sorted_newest_first_hd:
  "sorted_wrt (\<lambda>a b. timeStamp a \<ge> timeStamp b) txs \<Longrightarrow> t \<in> set txs \<Longrightarrow>
   timeStamp t \<le> timeStamp (hd txs)"
  by (cases txs) auto

lemma filter_count_both:
  "length (filter P xs) + length (filter Q xs) + length (filter (\<lambda>x. \<not> (P x \<or> Q x)) xs) =
   length xs + length (filter (\<lambda>x. P x \<and> Q x) xs)"
  by (induction xs) auto

lemma direct_address: "resolve_wallet m None (Some a) = Some a"
  by (simp add: resolve_wallet_def)

lemma lower_examples:
  "lower ''0xabc'' = ''0xabc''" "lower ''0xAbC'' = ''0xabc''" "lower ''0xABC'' = ''0xabc''"
  "lower ''0xdef'' = ''0xdef''"
  by (simp_all add: lower_def lower_char_def)

lemma oldest_first_summary:
  "check_wallet_activity (fixed_ledger [old_transfer, new_transfer]) finvesta_monitor None
       (Some ''0xabc'') 0.05 =
     Some \<lparr> wallet = ''0xabc'', total_transactions = 2, incoming_transactions = 1,
            outgoing_transactions = 1, large_transactions = 1,
            latest_transaction = old_transfer \<rparr>"
  by (simp add: check_wallet_activity_def direct_address fixed_ledger_def truthy_def
      incoming_txs_def outgoing_txs_def large_txs_def old_transfer_def new_transfer_def
      lower_examples)

lemma newest_first_summary:
  "check_wallet_activity (fixed_ledger [new_transfer, old_transfer]) finvesta_monitor None
       (Some ''0xabc'') 0.05 =
     Some \<lparr> wallet = ''0xabc'', total_transactions = 2, incoming_transactions = 1,
            outgoing_transactions = 1, large_transactions = 1,
            latest_transaction = new_transfer \<rparr>"
  by (simp add: check_wallet_activity_def direct_address fixed_ledger_def truthy_def
      incoming_txs_def outgoing_txs_def large_txs_def old_transfer_def new_transfer_def
      lower_examples)

lemma own_transfer_summary:
  "check_wallet_activity (fixed_ledger [own_transfer, new_transfer]) finvesta_monitor None
       (Some ''0xabc'') 0.05 =
     Some \<lparr> wallet = ''0xabc'', total_transactions = 2, incoming_transactions = 2,
            outgoing_transactions = 1, large_transactions = 1,
            latest_transaction = own_transfer \<rparr>"
  by (simp add: check_wallet_activity_def direct_address fixed_ledger_def truthy_def
      incoming_txs_def outgoing_txs_def large_txs_def own_transfer_def new_transfer_def
      lower_examples)

text \<open>
  Claim C4, as the code has it. For every non-empty transaction list the analyzer is
  given, \<open>latest_transaction\<close> is the first transaction of the list. It is the
  transaction with the maximum timestamp (the first of them in input order) exactly when
  no transaction has a greater timestamp than the first one, so for every list that is
  sorted newest first.
\<close>

theorem latest_transaction_first_row:
  assumes "check_wallet_activity ldg m wn wa th = Some s"
    and "resolve_wallet m wn wa = Some a"
    and "ldg a = Some txs"
  shows "txs \<noteq> [] \<and> latest_transaction s = hd txs \<and>
         (newest_transaction txs = Some (latest_transaction s) \<longleftrightarrow>
            (\<forall>t \<in> set txs. timeStamp t \<le> timeStamp (hd txs))) \<and>
         (sorted_wrt (\<lambda>a b. timeStamp a \<ge> timeStamp b) txs \<longrightarrow>
            newest_transaction txs = Some (latest_transaction s))"
proof -
  from check_wallet_activity_Some [OF assms]
  have ne: "txs \<noteq> []" and l: "latest_transaction s = hd txs" by simp_all
  have i: "newest_transaction txs = Some (latest_transaction s) \<longleftrightarrow>
            (\<forall>t \<in> set txs. timeStamp t \<le> timeStamp (hd txs))"
    unfolding l using ne by (rule newest_transaction_hd)
  have "newest_transaction txs = Some (latest_transaction s)"
    if "sorted_wrt (\<lambda>a b. timeStamp a \<ge> timeStamp b) txs"
    using i sorted_newest_first_hd [OF that] by blast
  with ne l i show ?thesis by blast
qed

text \<open>A list sorted newest first.\<close>

theorem latest_transaction_first_row_witness:
  "check_wallet_activity (fixed_ledger [new_transfer, old_transfer]) finvesta_monitor None
       (Some ''0xabc'') 0.05 =
     Some \<lparr> wallet = ''0xabc'', total_transactions = 2, incoming_transactions = 1,
            outgoing_transactions = 1, large_transactions = 1,
            latest_transaction = new_transfer \<rparr> \<and>
   resolve_wallet finvesta_monitor None (Some ''0xabc'') = Some ''0xabc'' \<and>
   fixed_ledger [new_transfer, old_transfer] ''0xabc'' = Some [new_transfer, old_transfer] \<and>
   sorted_wrt (\<lambda>a b. timeStamp a \<ge> timeStamp b) [new_transfer, old_transfer] \<and>
   newest_transaction [new_transfer, old_transfer] = Some new_transfer"
proof -
  have l: "fixed_ledger [new_transfer, old_transfer] ''0xabc'' = Some [new_transfer, old_transfer]"
    by (simp add: fixed_ledger_def)
  have srt: "sorted_wrt (\<lambda>a b. timeStamp a \<ge> timeStamp b) [new_transfer, old_transfer]"
    by (simp add: old_transfer_def new_transfer_def)
  from latest_transaction_first_row [OF newest_first_summary direct_address l] srt
  have "newest_transaction [new_transfer, old_transfer] = Some new_transfer"
    by simp
  with newest_first_summary direct_address l srt show ?thesis by blast
qed

text \<open>
  The same two transactions oldest first: the summary holds the one of time 100, the
  maximum timestamp is 200.
\<close>

theorem oldest_first_counterexample:
  "check_wallet_activity (fixed_ledger [old_transfer, new_transfer]) finvesta_monitor None
       (Some ''0xabc'') 0.05 =
     Some \<lparr> wallet = ''0xabc'', total_transactions = 2, incoming_transactions = 1,
            outgoing_transactions = 1, large_transactions = 1,
            latest_transaction = old_transfer \<rparr> \<and>
   timeStamp old_transfer = 100 \<and> timeStamp new_transfer = 200 \<and>
   newest_transaction [old_transfer, new_transfer] = Some new_transfer \<and>
   old_transfer \<noteq> new_transfer"
proof -
  have n: "newest_transaction [old_transfer, new_transfer] = Some new_transfer"
    by (simp add: newest_transaction_def old_transfer_def new_transfer_def)
  have d: "old_transfer \<noteq> new_transfer"
    by (simp add: old_transfer_def new_transfer_def)
  have t: "timeStamp old_transfer = 100 \<and> timeStamp new_transfer = 200"
    by (simp add: old_transfer_def new_transfer_def)
  show ?thesis using oldest_first_summary n d t by blast
qed

text \<open>
  Claim C10. In every summary, \<open>incoming_transactions\<close> counts the transactions sent to
  the wallet and \<open>outgoing_transactions\<close> those sent from it, so a transfer from the
  wallet to itself is in both counts: the two counts together are the total plus the
  number of self-transfers minus the number of transactions the wallet takes no part in,
  and they exceed the total when the wallet takes part in every transaction and one of
  them is a self-transfer. Every transaction is in exactly one of the two counted lists if
  and only if no transaction is a self-transfer and the wallet takes part in every
  transaction.
\<close>

theorem self_transfer_counted_twice:
  assumes "check_wallet_activity ldg m wn wa th = Some s"
    and "resolve_wallet m wn wa = Some a"
    and "ldg a = Some txs"
  shows "total_transactions s = length txs \<and>
         incoming_transactions s = length (incoming_txs a txs) \<and>
         outgoing_transactions s = length (outgoing_txs a txs) \<and>
         (\<forall>t \<in> set txs. self_transfer a t \<longrightarrow>
            t \<in> set (incoming_txs a txs) \<and> t \<in> set (outgoing_txs a txs)) \<and>
         incoming_transactions s + outgoing_transactions s +
             length (filter (\<lambda>t. \<not> involves a t) txs) =
           total_transactions s + length (filter (self_transfer a) txs) \<and>
         ((\<exists>t \<in> set txs. self_transfer a t) \<and> (\<forall>t \<in> set txs. involves a t) \<longrightarrow>
            total_transactions s < incoming_transactions s + outgoing_transactions s) \<and>
         ((\<forall>t \<in> set txs. (t \<in> set (incoming_txs a txs)) \<noteq> (t \<in> set (outgoing_txs a txs))) \<longleftrightarrow>
          (\<forall>t \<in> set txs. \<not> self_transfer a t \<and> involves a t))"
proof -
  from check_wallet_activity_Some [OF assms]
  have t: "total_transactions s = length txs"
    and i: "incoming_transactions s = length (incoming_txs a txs)"
    and out: "outgoing_transactions s = length (outgoing_txs a txs)" by simp_all
  have both: "\<forall>t \<in> set txs. self_transfer a t \<longrightarrow>
            t \<in> set (incoming_txs a txs) \<and> t \<in> set (outgoing_txs a txs)"
    by (simp add: self_transfer_def incoming_txs_def outgoing_txs_def)
  have st: "self_transfer a = (\<lambda>t. lower (to_address t) = lower a \<and> lower (from_address t) = lower a)"
    by (auto simp add: fun_eq_iff self_transfer_def)
  have cnt: "incoming_transactions s + outgoing_transactions s +
             length (filter (\<lambda>t. \<not> involves a t) txs) =
           total_transactions s + length (filter (self_transfer a) txs)"
    using filter_count_both [of "\<lambda>t. lower (to_address t) = lower a" txs
        "\<lambda>t. lower (from_address t) = lower a"]
    by (simp add: t i out incoming_txs_def outgoing_txs_def involves_def st disj_commute)
  have more: "total_transactions s < incoming_transactions s + outgoing_transactions s"
    if "\<exists>t \<in> set txs. self_transfer a t" and "\<forall>t \<in> set txs. involves a t"
  proof -
    from that(2) have "filter (\<lambda>t. \<not> involves a t) txs = []" by (simp add: filter_empty_conv)
    moreover from that(1) have "0 < length (filter (self_transfer a) txs)"
      by (simp add: filter_empty_conv)
    ultimately show ?thesis using cnt by simp
  qed
  have part: "(\<forall>t \<in> set txs. (t \<in> set (incoming_txs a txs)) \<noteq> (t \<in> set (outgoing_txs a txs))) \<longleftrightarrow>
          (\<forall>t \<in> set txs. \<not> self_transfer a t \<and> involves a t)"
    by (auto simp add: self_transfer_def involves_def incoming_txs_def outgoing_txs_def)
  show ?thesis using t i out both cnt more part by blast
qed

text \<open>
  A self-transfer and an incoming transaction: 2 incoming and 1 outgoing of 2 in total.
  An outgoing and an incoming transaction: 1 and 1 of 2.
\<close>

theorem self_transfer_counted_twice_witness:
  "check_wallet_activity (fixed_ledger [own_transfer, new_transfer]) finvesta_monitor None
       (Some ''0xabc'') 0.05 =
     Some \<lparr> wallet = ''0xabc'', total_transactions = 2, incoming_transactions = 2,
            outgoing_transactions = 1, large_transactions = 1,
            latest_transaction = own_transfer \<rparr> \<and>
   resolve_wallet finvesta_monitor None (Some ''0xabc'') = Some ''0xabc'' \<and>
   fixed_ledger [own_transfer, new_transfer] ''0xabc'' = Some [own_transfer, new_transfer] \<and>
   self_transfer ''0xabc'' own_transfer \<and>
   own_transfer \<in> set (incoming_txs ''0xabc'' [own_transfer, new_transfer]) \<and>
   own_transfer \<in> set (outgoing_txs ''0xabc'' [own_transfer, new_transfer]) \<and>
   check_wallet_activity (fixed_ledger [old_transfer, new_transfer]) finvesta_monitor None
       (Some ''0xabc'') 0.05 =
     Some \<lparr> wallet = ''0xabc'', total_transactions = 2, incoming_transactions = 1,
            outgoing_transactions = 1, large_transactions = 1,
            latest_transaction = old_transfer \<rparr> \<and>
   \<not> self_transfer ''0xabc'' old_transfer \<and> involves ''0xabc'' old_transfer \<and>
   \<not> self_transfer ''0xabc'' new_transfer \<and> involves ''0xabc'' new_transfer"
proof -
  have l: "fixed_ledger [own_transfer, new_transfer] ''0xabc'' = Some [own_transfer, new_transfer]"
    by (simp add: fixed_ledger_def)
  have st: "self_transfer ''0xabc'' own_transfer"
    by (simp add: self_transfer_def own_transfer_def lower_examples)
  from self_transfer_counted_twice [OF own_transfer_summary direct_address l] st
  have both: "own_transfer \<in> set (incoming_txs ''0xabc'' [own_transfer, new_transfer]) \<and>
      own_transfer \<in> set (outgoing_txs ''0xabc'' [own_transfer, new_transfer])"
    by simp
  have o: "\<not> self_transfer ''0xabc'' old_transfer \<and> involves ''0xabc'' old_transfer"
    by (simp add: self_transfer_def involves_def old_transfer_def lower_examples)
  have n: "\<not> self_transfer ''0xabc'' new_transfer \<and> involves ''0xabc'' new_transfer"
    by (simp add: self_transfer_def involves_def new_transfer_def lower_examples)
  show ?thesis
    using own_transfer_summary direct_address l st both oldest_first_summary o n by blast
qed

section \<open>Properties of the ecosystem aggregator\<close>

lemma analyze_tokens_scores:
  "sustainability_scores (snd (analyze_tokens mkt ids m acc)) =
     sustainability_scores acc @ positive_ratios (sustainability_trace mkt ids m)"
proof (induction ids arbitrary: m acc)
  case Nil
  then show ?case by (simp add: positive_ratios_def)
next
  case (Cons token_id rest)
  obtain h m1 where h: "analyze_token_health mkt m token_id = (h, m1)" by force
  obtain s m2 where s: "check_token_sustainability mkt m1 token_id True = (s, m2)" by force
  show ?case
    by (cases h; cases s) (simp_all add: h s Cons.IH positive_ratios_def)
qed

lemma ecosystem_score_trace:
  "sustainability_score (fst (analyze_multi_token_ecosystem mkt m ids)) =
     average_or_zero (positive_ratios
       (sustainability_trace mkt (case ids of None \<Rightarrow> tokens m | Some l \<Rightarrow> l) m))"
proof -
  let ?ids = "case ids of None \<Rightarrow> tokens m | Some l \<Rightarrow> l"
  obtain m' acc where a: "analyze_tokens mkt ?ids m no_results = (m', acc)" by force
  have "sustainability_scores acc = positive_ratios (sustainability_trace mkt ?ids m)"
    using analyze_tokens_scores [of mkt ?ids m no_results] a by (simp add: no_results_def)
  then show ?thesis
    by (simp add: analyze_multi_token_ecosystem_def Let_def a)
qed

lemma check_token_sustainability_ratio:
  assumes "fst (check_token_sustainability mkt m tid est) = Some r"
  shows "sustainability_ratio r =
           (if 0 < required_payouts r then Fin (daily_tax_revenue r / required_payouts r) else PInf)"
  using assms
  by (auto simp add: check_token_sustainability_def check_sustainability_def Let_def
      split: prod.splits option.splits if_splits)

lemma trace_ratio:
  "r \<in> set (sustainability_trace mkt ids m) \<Longrightarrow>
   sustainability_ratio r =
     (if 0 < required_payouts r then Fin (daily_tax_revenue r / required_payouts r) else PInf)"
proof (induction ids arbitrary: m)
  case Nil
  then show ?case by simp
next
  case (Cons token_id rest)
  obtain h m1 where h: "analyze_token_health mkt m token_id = (h, m1)" by force
  obtain s m2 where s: "check_token_sustainability mkt m1 token_id True = (s, m2)" by force
  from Cons.prems have "(s = Some r) \<or> r \<in> set (sustainability_trace mkt rest m2)"
    by (auto simp add: h s split: option.splits)
  then show ?case
  proof
    assume "s = Some r"
    with s have "fst (check_token_sustainability mkt m1 token_id True) = Some r" by simp
    then show ?thesis by (rule check_token_sustainability_ratio)
  next
    assume "r \<in> set (sustainability_trace mkt rest m2)"
    then show ?thesis by (rule Cons.IH)
  qed
qed

lemma py_sum_all_inf:
  "xs \<noteq> [] \<Longrightarrow> \<forall>x \<in> set xs. x = PInf \<Longrightarrow> py_sum xs = PInf"
proof -
  have "\<forall>x \<in> set xs. x = PInf \<Longrightarrow> foldl pf_add PInf xs = PInf" for xs
    by (induction xs) auto
  then show "xs \<noteq> [] \<Longrightarrow> \<forall>x \<in> set xs. x = PInf \<Longrightarrow> py_sum xs = PInf"
    by (cases xs) (auto simp add: py_sum_def)
qed

lemma average_all_inf:
  assumes "xs \<noteq> []" and "\<forall>x \<in> set xs. x = PInf"
  shows "average_or_zero xs = PInf"
  using assms py_sum_all_inf [OF assms]
  by (simp add: average_or_zero_def signed_inf_def)

text \<open>
  Claim C1, as the code has it. For every ecosystem evaluation over a list of token ids,
  \<open>sustainability_score\<close> is the arithmetic mean of the sustainability ratios that
  are greater than 0, taken over the tokens that have data, and 0 when there is no such
  ratio. A ratio is greater than 0 exactly when the required payouts are not positive (the
  ratio is then plus infinity) or the daily tax revenue is positive. Infinite ratios are
  part of the mean: when at least one token has data and every such token has required
  payouts of 0, the score is plus infinity.
\<close>

theorem sustainability_score_mean:
  fixes mkt m ids
  defines "reports \<equiv> sustainability_trace mkt (case ids of None \<Rightarrow> tokens m | Some l \<Rightarrow> l) m"
  defines "score \<equiv> sustainability_score (fst (analyze_multi_token_ecosystem mkt m ids))"
  shows "score =
           (if positive_ratios reports = [] then Fin 0
            else pf_div (py_sum (positive_ratios reports))
                        (Fin (real (length (positive_ratios reports))))) \<and>
         (\<forall>r \<in> set reports.
            pf_greater (sustainability_ratio r) (Fin 0) \<longleftrightarrow>
              required_payouts r \<le> 0 \<or> 0 < daily_tax_revenue r) \<and>
         (\<forall>r \<in> set reports. required_payouts r \<le> 0 \<longrightarrow> sustainability_ratio r = PInf) \<and>
         (reports \<noteq> [] \<and> (\<forall>r \<in> set reports. required_payouts r = 0) \<longrightarrow> score = PInf)"
proof -
  have sc: "score = average_or_zero (positive_ratios reports)"
    unfolding score_def reports_def by (rule ecosystem_score_trace)
  have ratio: "sustainability_ratio r =
     (if 0 < required_payouts r then Fin (daily_tax_revenue r / required_payouts r) else PInf)"
    if "r \<in> set reports" for r
    using that unfolding reports_def by (rule trace_ratio)
  have q: "pf_greater (sustainability_ratio r) (Fin 0) \<longleftrightarrow>
              required_payouts r \<le> 0 \<or> 0 < daily_tax_revenue r"
    if "r \<in> set reports" for r
    by (auto simp add: ratio [OF that] pf_greater_def zero_less_divide_iff)
  have inf: "sustainability_ratio r = PInf" if "r \<in> set reports" "required_payouts r \<le> 0" for r
    using ratio [OF that(1)] that(2) by simp
  have all_inf: "score = PInf" if "reports \<noteq> []" "\<forall>r \<in> set reports. required_payouts r = 0"
  proof -
    have m: "map sustainability_ratio reports = map (\<lambda>r. PInf) reports"
      using that(2) inf by (intro map_cong) auto
    have p: "positive_ratios reports = map (\<lambda>r. PInf) reports"
      unfolding positive_ratios_def m by (simp add: pf_greater_def)
    show ?thesis
      unfolding sc p using that(1) by (intro average_all_inf) auto
  qed
  show ?thesis
    using sc q inf all_inf by (auto simp add: average_or_zero_def)
qed

lemma trace_single:
  "sustainability_trace mkt [tid] m =
     (case fst (check_token_sustainability mkt (snd (analyze_token_health mkt m tid)) tid True) of
        None \<Rightarrow> [] | Some r \<Rightarrow> [r])"
  by (simp add: split_beta)

lemma analyze_token_health_monitor:
  "snd (analyze_token_health mkt m tid) = snd (get_token_data mkt m tid 30 ''usd'')"
  by (simp add: analyze_token_health_def split: prod.splits option.splits)

lemma steady_market_trace_single:
  assumes "data_cache m (cache_key tid 30 ''usd'') = None"
    and "merge_frames (prices body) (total_volumes body) = rows"
    and "rows \<noteq> []"
  shows "sustainability_trace (steady_market body) [tid] m =
     [check_sustainability tid (mean (map volume rows)) (tax_rate_of m tid)
        (mean (map volume rows) * 10) (daily_roi_of m tid)]"
proof -
  let ?m1 = "snd (get_token_data (steady_market body) m tid 30 ''usd'')"
  have f: "get_token_data (steady_market body) m tid 30 ''usd'' =
      (Some rows, m\<lparr> requests_sent := requests_sent m @ [chart_url tid 30 ''usd''],
               data_cache := (data_cache m)(cache_key tid 30 ''usd'' \<mapsto> rows) \<rparr>)"
    using get_token_data_fetched [OF assms(1), of "steady_market body" body]
    by (simp add: steady_market_def assms(2))
  have "get_token_data (steady_market body) ?m1 tid 30 ''usd'' = (Some rows, ?m1)"
    by (rule get_token_data_hit) (simp add: f)
  then have g: "fst (get_token_data (steady_market body) ?m1 tid 30 ''usd'') = Some rows"
    by simp
  have c: "tax_rate_of ?m1 tid = tax_rate_of m tid" "daily_roi_of ?m1 tid = daily_roi_of m tid"
    using get_token_data_config [of "steady_market body" m tid 30 "''usd''"]
    by (simp_all add: tax_rate_of_def daily_roi_of_def)
  show ?thesis
    using check_token_sustainability_Some [OF g assms(3), of True]
    by (simp add: trace_single analyze_token_health_monitor c del: sustainability_trace.simps)
qed

lemma ecosystem_status:
  "health_status (fst (analyze_multi_token_ecosystem mkt m ids)) =
     (if pf_less (sustainability_score (fst (analyze_multi_token_ecosystem mkt m ids))) (Fin 1)
      then ''Critical: Unsustainable''
      else if pf_less (sustainability_score (fst (analyze_multi_token_ecosystem mkt m ids))) (Fin 1.5)
      then ''Warning: Marginally Sustainable''
      else ''Healthy: Sustainable'')"
  by (simp add: analyze_multi_token_ecosystem_def Let_def split_beta)

lemma no_volume_merge: "merge_frames (prices no_volume) (total_volumes no_volume) = no_volume_rows"
  by (simp add: no_volume_def merge_frames_def no_volume_rows_def)

lemma no_volume_trace:
  "sustainability_trace (steady_market no_volume) [''hex''] finvesta_monitor =
     [check_sustainability ''hex'' 0 0.05 0 0.01]"
proof -
  have k: "data_cache finvesta_monitor (cache_key ''hex'' 30 ''usd'') = None"
    by (simp add: finvesta_monitor_def)
  have ne: "no_volume_rows \<noteq> []" by (simp add: no_volume_rows_def)
  show ?thesis
    using steady_market_trace_single [OF k no_volume_merge ne]
    by (simp add: no_volume_rows_def mean_def tax_rate_of_def daily_roi_of_def finvesta_monitor_def)
qed

lemma two_prices_trace:
  "sustainability_trace (steady_market two_prices) [''finvesta''] finvesta_monitor =
     [check_sustainability ''finvesta'' 5 0.05 50 0.01]"
proof -
  have k: "data_cache finvesta_monitor (cache_key ''finvesta'' 30 ''usd'') = None"
    by (simp add: finvesta_monitor_def)
  have ne: "two_rows \<noteq> []" by (simp add: two_rows_def)
  show ?thesis
    using steady_market_trace_single [OF k two_prices_rows ne]
    by (simp add: two_rows_def mean_def tax_rate_of_def daily_roi_of_def finvesta_monitor_def)
qed

text \<open>
  One token with the volumes 5 and 5: the score is 0.5. One token without volume: the
  required payouts are 0 and the score is plus infinity.
\<close>

theorem sustainability_score_mean_witness:
  "sustainability_trace (steady_market two_prices) [''finvesta''] finvesta_monitor =
     [check_sustainability ''finvesta'' 5 0.05 50 0.01] \<and>
   positive_ratios [check_sustainability ''finvesta'' 5 0.05 50 0.01] = [Fin 0.5] \<and>
   sustainability_score (fst (analyze_multi_token_ecosystem (steady_market two_prices)
       finvesta_monitor (Some [''finvesta'']))) = Fin 0.5 \<and>
   sustainability_trace (steady_market no_volume) [''hex''] finvesta_monitor =
     [check_sustainability ''hex'' 0 0.05 0 0.01] \<and>
   required_payouts (check_sustainability ''hex'' 0 0.05 0 0.01) = 0 \<and>
   sustainability_score (fst (analyze_multi_token_ecosystem (steady_market no_volume)
       finvesta_monitor (Some [''hex'']))) = PInf"
proof -
  have p: "positive_ratios [check_sustainability ''finvesta'' 5 0.05 50 0.01] = [Fin 0.5]"
    by (simp add: positive_ratios_def check_sustainability_def Let_def pf_greater_def)
  have r: "required_payouts (check_sustainability ''hex'' 0 0.05 0 0.01) = 0"
    by (simp add: check_sustainability_def Let_def)
  note t1 = sustainability_score_mean
    [of "steady_market two_prices" finvesta_monitor "Some [''finvesta'']", THEN conjunct1]
  have a: "sustainability_score (fst (analyze_multi_token_ecosystem (steady_market two_prices)
       finvesta_monitor (Some [''finvesta'']))) = Fin 0.5"
    unfolding t1 option.case two_prices_trace p by (simp add: py_sum_def)
  note t2 = sustainability_score_mean
    [of "steady_market no_volume" finvesta_monitor "Some [''hex'']",
     THEN conjunct2, THEN conjunct2, THEN conjunct2, unfolded option.case no_volume_trace]
  from t2 r
  have b: "sustainability_score (fst (analyze_multi_token_ecosystem (steady_market no_volume)
       finvesta_monitor (Some [''hex'']))) = PInf"
    by simp
  show ?thesis using two_prices_trace p a no_volume_trace r b by blast
qed

text \<open>
  The only evaluated token has required payouts of 0: the score is plus infinity, not 0,
  and the ecosystem is reported as healthy.
\<close>

theorem infinite_score_counterexample:
  "sustainability_trace (steady_market no_volume) [''hex''] finvesta_monitor =
     [check_sustainability ''hex'' 0 0.05 0 0.01] \<and>
   required_payouts (check_sustainability ''hex'' 0 0.05 0 0.01) = 0 \<and>
   sustainability_ratio (check_sustainability ''hex'' 0 0.05 0 0.01) = PInf \<and>
   sustainability_score (fst (analyze_multi_token_ecosystem (steady_market no_volume)
       finvesta_monitor (Some [''hex'']))) = PInf \<and>
   sustainability_score (fst (analyze_multi_token_ecosystem (steady_market no_volume)
       finvesta_monitor (Some [''hex'']))) \<noteq> Fin 0 \<and>
   health_status (fst (analyze_multi_token_ecosystem (steady_market no_volume)
       finvesta_monitor (Some [''hex'']))) = ''Healthy: Sustainable''"
proof -
  have r: "required_payouts (check_sustainability ''hex'' 0 0.05 0 0.01) = 0 \<and>
           sustainability_ratio (check_sustainability ''hex'' 0 0.05 0 0.01) = PInf"
    by (simp add: check_sustainability_def Let_def)
  have p: "positive_ratios [check_sustainability ''hex'' 0 0.05 0 0.01] = [PInf]"
    by (simp add: positive_ratios_def check_sustainability_def Let_def pf_greater_def)
  have s: "sustainability_score (fst (analyze_multi_token_ecosystem (steady_market no_volume)
       finvesta_monitor (Some [''hex'']))) = PInf"
    unfolding ecosystem_score_trace option.case no_volume_trace p
    by (simp add: average_or_zero_def py_sum_def signed_inf_def)
  have h: "health_status (fst (analyze_multi_token_ecosystem (steady_market no_volume)
       finvesta_monitor (Some [''hex'']))) = ''Healthy: Sustainable''"
    by (simp only: ecosystem_status s) simp
  show ?thesis using no_volume_trace r s h by simp
qed

end
